theory Spec2Isabelle
  imports Main "HOL-Library.AList"
begin

section \<open>JavaScript values\<close>

text \<open>
  The program is JavaScript: its tool descriptors, header maps, catalog entries and
  upstream replies are dynamically typed objects. They are modelled by one datatype of
  values. An object is its list of own enumerable properties in insertion order; a
  header thunk such as \<^verbatim>\<open>() => Deno.env.get("PARALLEL_API_KEY")\<close> is a function
  of the process environment. Strings are lists of 8-bit characters, case conversion is
  the ASCII one. Keys that are array indices (which JavaScript enumerates before the other
  keys) and assignments to \<^verbatim>\<open>__proto__\<close> are outside the model.
\<close>

type_synonym env = "string \<Rightarrow> string option"

datatype jsval =
    JUndefined
  | JNull
  | JBool bool
  | JNum int
  | JStr string
  | JFun "env \<Rightarrow> jsval"
  | JArr "jsval list"
  | JObj "(string \<times> jsval) list"

type_synonym props = "(string \<times> jsval) list"

text \<open>Truthiness, as tested by \<^verbatim>\<open>if (v)\<close>, \<^verbatim>\<open>!v\<close> and \<^verbatim>\<open>a || b\<close>.\<close>

fun truthy :: "jsval \<Rightarrow> bool" where
  "truthy JUndefined = False"
| "truthy JNull = False"
| "truthy (JBool b) = b"
| "truthy (JNum n) = (n \<noteq> 0)"
| "truthy (JStr s) = (s \<noteq> [])"
| "truthy (JFun f) = True"
| "truthy (JArr xs) = True"
| "truthy (JObj fs) = True"

text \<open>Decimal numerals, for the index keys of strings and arrays.\<close>

definition digitChar :: "nat \<Rightarrow> char" where
  "digitChar d = ''0123456789'' ! d"

function showNat :: "nat \<Rightarrow> string" where
  "showNat n = (if n < 10 then [digitChar n] else showNat (n div 10) @ [digitChar (n mod 10)])"
  by pat_completeness auto
termination
  by (relation "measure (\<lambda>n. n)") auto

declare showNat.simps [simp del]

fun indexed :: "nat \<Rightarrow> 'a list \<Rightarrow> (string \<times> 'a) list" where
  "indexed i [] = []"
| "indexed i (x # xs) = (showNat i, x) # indexed (Suc i) xs"

text \<open>
  The own enumerable properties of a value, as \<^verbatim>\<open>Object.entries\<close>,
  \<^verbatim>\<open>Object.keys\<close> and the spread \<^verbatim>\<open>{ ...v }\<close> enumerate them: the properties
  of an object, the characters of a string and the elements of an array under their
  indices, nothing for the other values.
\<close>

fun ownProps :: "jsval \<Rightarrow> props" where
  "ownProps (JObj fs) = fs"
| "ownProps (JStr s) = indexed 0 (map (\<lambda>c. JStr [c]) s)"
| "ownProps (JArr xs) = indexed 0 xs"
| "ownProps v = []"

text \<open>\<^verbatim>\<open>v === 'text'\<close>: strict equality with a string.\<close>

fun isStr :: "jsval \<Rightarrow> string \<Rightarrow> bool" where
  "isStr (JStr s) t = (s = t)"
| "isStr v t = False"

text \<open>\<^verbatim>\<open>o[k]\<close> on an object given by its properties; a missing property reads \<^verbatim>\<open>undefined\<close>.\<close>

definition getOwn :: "props \<Rightarrow> string \<Rightarrow> jsval" where
  "getOwn fs k = (case map_of fs k of Some v \<Rightarrow> v | None \<Rightarrow> JUndefined)"

text \<open>
  A read with a computed key, \<^verbatim>\<open>toolsRegistry[toolName]\<close> or
  \<^verbatim>\<open>userHeaders[key]\<close>, also finds the members that every object inherits from
  \<^verbatim>\<open>Object.prototype\<close>: functions, which are truthy, have no enumerable properties
  and are not called by the program, and the prototype itself under \<^verbatim>\<open>__proto__\<close>.
\<close>

definition inheritedNames :: "string list" where
  "inheritedNames =
     [''constructor'', ''__defineGetter__'', ''__defineSetter__'', ''hasOwnProperty'',
      ''__lookupGetter__'', ''__lookupSetter__'', ''isPrototypeOf'', ''propertyIsEnumerable'',
      ''toString'', ''valueOf'', ''__proto__'', ''toLocaleString'']"

definition inherited :: "string \<Rightarrow> jsval" where
  "inherited k =
     (if k = ''__proto__'' then JObj []
      else if k \<in> set inheritedNames then JFun (\<lambda>env. JUndefined)
      else JUndefined)"

definition readKey :: "props \<Rightarrow> string \<Rightarrow> jsval" where
  "readKey fs k = (case map_of fs k of Some v \<Rightarrow> v | None \<Rightarrow> inherited k)"

text \<open>
  \<^verbatim>\<open>v.k\<close> with a fixed name \<open>k\<close> that is not an inherited one, for a value that is
  not null or undefined; only objects have the properties read here.
\<close>

fun getProp :: "jsval \<Rightarrow> string \<Rightarrow> jsval" where
  "getProp (JObj fs) k = getOwn fs k"
| "getProp v k = JUndefined"

text \<open>
  \<^verbatim>\<open>o[k] = v\<close>: an existing property keeps its place, a new one goes last
  (\<^const>\<open>AList.update\<close>). \<^verbatim>\<open>{ ...acc, ...v }\<close> assigns the own properties of
  \<open>v\<close> in their order.
\<close>

definition spread :: "props \<Rightarrow> jsval \<Rightarrow> props" where
  "spread acc v = fold (\<lambda>(k, x) ob. AList.update k x ob) (ownProps v) acc"

section \<open>Credential Resolver (backend/tools.js)\<close>

text \<open>
  One iteration of the loop over \<^verbatim>\<open>Object.entries(resolved.headers)\<close>: the caller's
  value when it is truthy, else the result of calling a function-typed value, else the
  value itself.
\<close>

definition resolveHeader :: "props \<Rightarrow> env \<Rightarrow> string \<Rightarrow> jsval \<Rightarrow> jsval" where
  "resolveHeader userHeaders env key val =
     (if truthy (readKey userHeaders key) then readKey userHeaders key
      else (case val of JFun f \<Rightarrow> f env | _ \<Rightarrow> val))"

definition resolveHeaders :: "props \<Rightarrow> env \<Rightarrow> props \<Rightarrow> props" where
  "resolveHeaders userHeaders env hs =
     fold (\<lambda>(key, val) resolvedHeaders.
             AList.update key (resolveHeader userHeaders env key val) resolvedHeaders) hs []"

text \<open>
  \<^verbatim>\<open>resolveToolConfig(toolConfig, userHeaders = {})\<close>. The caller's headers are an
  object (always truthy, so the final merge always runs); the environment that the thunks
  read is a parameter.
\<close>

definition resolveToolConfig :: "jsval \<Rightarrow> props \<Rightarrow> env \<Rightarrow> props" where
  "resolveToolConfig toolConfig userHeaders env =
     (let resolved0 = spread [] toolConfig;
          resolved1 = AList.delete ''_meta'' resolved0;
          resolved2 = AList.delete ''_registry'' resolved1;
          resolved3 =
            (if truthy (getOwn resolved2 ''headers'')
             then AList.update ''headers''
                    (JObj (resolveHeaders userHeaders env (ownProps (getOwn resolved2 ''headers''))))
                    resolved2
             else resolved2)
      in AList.update ''headers''
           (JObj (spread (spread [] (getOwn resolved3 ''headers'')) (JObj userHeaders)))
           resolved3)"

text \<open>The headers of a resolved tool.\<close>

definition headersOf :: "props \<Rightarrow> props" where
  "headersOf resolved = ownProps (getOwn resolved ''headers'')"

text \<open>
  The first entry of the static registry of \<^verbatim>\<open>tools.js\<close> (of the documentation
  under \<^verbatim>\<open>_meta\<close>, which the resolver deletes, the description is kept).
\<close>

definition parallel_web_search :: jsval where
  "parallel_web_search = JObj
     [(''type'', JStr ''mcp''),
      (''server_label'', JStr ''parallel_web_search''),
      (''server_url'', JStr ''https://mcp.parallel.ai/v1beta/search_mcp/''),
      (''headers'', JObj [(''x-api-key'',
          JFun (\<lambda>env. case env ''PARALLEL_API_KEY'' of Some s \<Rightarrow> JStr s | None \<Rightarrow> JUndefined))]),
      (''require_approval'', JStr ''never''),
      (''_meta'', JObj [(''description'', JStr ''Web search with AI-optimized results'')])]"

section \<open>Strings\<close>

text \<open>
  The string methods the program uses, on ASCII: \<^verbatim>\<open>toLowerCase\<close>,
  \<^verbatim>\<open>toUpperCase\<close>, \<^verbatim>\<open>includes\<close>, and the global replacements of one
  character class by one character each.
\<close>

definition upperChars :: string where
  "upperChars = ''ABCDEFGHIJKLMNOPQRSTUVWXYZ''"

definition lowerChars :: string where
  "lowerChars = ''abcdefghijklmnopqrstuvwxyz''"

definition digitChars :: string where
  "digitChars = ''0123456789''"

text \<open>The character class \<^verbatim>\<open>[a-zA-Z0-9]\<close>.\<close>

definition isAlnum :: "char \<Rightarrow> bool" where
  "isAlnum c = (c \<in> set (lowerChars @ upperChars @ digitChars))"

definition toLowerChar :: "char \<Rightarrow> char" where
  "toLowerChar c = (case map_of (zip upperChars lowerChars) c of Some d \<Rightarrow> d | None \<Rightarrow> c)"

definition toUpperChar :: "char \<Rightarrow> char" where
  "toUpperChar c = (case map_of (zip lowerChars upperChars) c of Some d \<Rightarrow> d | None \<Rightarrow> c)"

definition toLowerCase :: "string \<Rightarrow> string" where
  "toLowerCase s = map toLowerChar s"

definition toUpperCase :: "string \<Rightarrow> string" where
  "toUpperCase s = map toUpperChar s"

fun startsWith :: "string \<Rightarrow> string \<Rightarrow> bool" where
  "startsWith s [] = True"
| "startsWith [] (c # t) = False"
| "startsWith (d # s) (c # t) = (d = c \<and> startsWith s t)"

text \<open>\<^verbatim>\<open>s.includes(t)\<close>: \<open>t\<close> occurs in \<open>s\<close> as a contiguous substring.\<close>

fun includesStr :: "string \<Rightarrow> string \<Rightarrow> bool" where
  "includesStr [] t = (t = [])"
| "includesStr (c # s) t = (startsWith (c # s) t \<or> includesStr s t)"

text \<open>\<^verbatim>\<open>s.replace(/-/g, '_')\<close>\<close>

definition dashesToUnderscores :: "string \<Rightarrow> string" where
  "dashesToUnderscores s = map (\<lambda>c. if c = CHR ''-'' then CHR ''_'' else c) s"

section \<open>Public Registry Client (backend/registry.js)\<close>

text \<open>
  An entry of the public catalog, with the fields the client reads. A remote's header
  declarations are absent or an array; \<^verbatim>\<open>isSecret\<close> and \<^verbatim>\<open>value\<close> are tested
  for truthiness only.
\<close>

record header_decl =
  hd_name :: string
  hd_isSecret :: jsval
  hd_value :: jsval

record remote =
  rm_type :: jsval
  rm_url :: jsval
  rm_headers :: "header_decl list option"

record server =
  sv_name :: string
  sv_remotes :: "remote list option"
  sv_description :: jsval
  sv_version :: jsval
  sv_repository_url :: jsval
  sv_packages :: jsval

text \<open>\<^verbatim>\<open>server.name.replace(/[^a-zA-Z0-9_]/g, '_')\<close>\<close>

definition safeNameOf :: "string \<Rightarrow> string" where
  "safeNameOf name = map (\<lambda>c. if isAlnum c \<or> c = CHR ''_'' then c else CHR ''_'') name"

text \<open>
  The string stored for a secret header: the source text of a thunk, built by a template
  literal, \<^verbatim>\<open>`() => Deno.env.get("${header.name.toUpperCase().replace(/-/g, '_')}")`\<close>.
\<close>

definition secretHeaderText :: "string \<Rightarrow> string" where
  "secretHeaderText name =
     ''() => Deno.env.get('' @ [CHR 0x22] @ dashesToUnderscores (toUpperCase name) @ [CHR 0x22] @ '')''"

text \<open>One step of \<^verbatim>\<open>remote.headers.forEach\<close>.\<close>

definition addHeader :: "header_decl \<Rightarrow> props \<Rightarrow> props" where
  "addHeader header headers =
     (if truthy (hd_isSecret header)
      then AList.update (hd_name header) (JStr (secretHeaderText (hd_name header))) headers
      else if truthy (hd_value header)
      then AList.update (hd_name header) (hd_value header) headers
      else headers)"

text \<open>\<^verbatim>\<open>server.remotes.find(r => r.type === 'streamable-http') || server.remotes[0]\<close>\<close>

fun chooseRemote :: "remote list \<Rightarrow> remote option" where
  "chooseRemote [] = None"
| "chooseRemote (r # rs) =
     (case find (\<lambda>r. isStr (rm_type r) ''streamable-http'') (r # rs) of
        Some s \<Rightarrow> Some s
      | None \<Rightarrow> Some r)"

text \<open>The pair \<^verbatim>\<open>(serverUrl, headers)\<close> after the first block of \<^verbatim>\<open>generateConfigFromServer\<close>.\<close>

definition remoteUrlAndHeaders :: "server \<Rightarrow> jsval \<times> props" where
  "remoteUrlAndHeaders server =
     (case sv_remotes server of
        None \<Rightarrow> (JNull, [])
      | Some rs \<Rightarrow>
          (case chooseRemote rs of
             None \<Rightarrow> (JNull, [])
           | Some remote \<Rightarrow>
               (rm_url remote,
                (case rm_headers remote of
                   None \<Rightarrow> []
                 | Some hs \<Rightarrow> fold addHeader hs []))))"

definition noteText :: string where
  "noteText = ''No remote URL found - this server may require local installation''"

definition generateConfigFromServer :: "server \<Rightarrow> jsval" where
  "generateConfigFromServer server =
     (let safeName = safeNameOf (sv_name server);
          (serverUrl, headers) = remoteUrlAndHeaders server
      in if \<not> truthy serverUrl
         then JObj [(''note'', JStr noteText), (''packages'', sv_packages server)]
         else JObj [(safeName, JObj
                [(''type'', JStr ''mcp''),
                 (''server_label'', JStr (sv_name server)),
                 (''server_url'', serverUrl),
                 (''headers'', JObj headers),
                 (''require_approval'', JStr ''never''),
                 (''_registry'', JObj
                    [(''name'', JStr (sv_name server)),
                     (''description'', sv_description server),
                     (''version'', sv_version server),
                     (''repository'', sv_repository_url server)])])])"

text \<open>
  The reply of the catalog endpoint: the fetch throws, the status is not OK, the body is
  not JSON, or the body is parsed and \<^verbatim>\<open>data.servers || []\<close> is the list of entries.
\<close>

datatype catalog_reply = FetchThrows | StatusNotOk nat | BodyNotJson | Catalog "server list"

text \<open>\<^verbatim>\<open>name.toLowerCase().replace(/[^a-zA-Z0-9]/g, '_')\<close>\<close>

definition normalizeName :: "string \<Rightarrow> string" where
  "normalizeName name = map (\<lambda>c. if isAlnum c then c else CHR ''_'') (toLowerCase name)"

definition fuzzyMatch :: "string \<Rightarrow> server \<Rightarrow> bool" where
  "fuzzyMatch toolName s =
     (let normalizedSearch = normalizeName toolName;
          normalizedName = normalizeName (sv_name s)
      in normalizedName = normalizedSearch
         \<or> includesStr normalizedName normalizedSearch
         \<or> includesStr normalizedSearch normalizedName)"

text \<open>The entry the lookup settles on: the first exact match, else the first fuzzy match.\<close>

definition findServer :: "server list \<Rightarrow> string \<Rightarrow> server option" where
  "findServer servers toolName =
     (case find (\<lambda>s. sv_name s = toolName) servers of
        Some s \<Rightarrow> Some s
      | None \<Rightarrow> find (fuzzyMatch toolName) servers)"

text \<open>
  \<^verbatim>\<open>lookupFromMcpRegistry(toolName)\<close>, given the reply of the catalog endpoint. Every
  exception inside is caught and gives \<^verbatim>\<open>null\<close>. The test
  \<^verbatim>\<open>!configKey || configMap[configKey].note\<close> reads the property \<^verbatim>\<open>note\<close> of
  the value stored under the first key of the generated map.
\<close>

definition lookupFromMcpRegistry :: "catalog_reply \<Rightarrow> string \<Rightarrow> jsval" where
  "lookupFromMcpRegistry reply toolName =
     (case reply of
        Catalog servers \<Rightarrow>
          (case findServer servers toolName of
             None \<Rightarrow> JNull
           | Some server \<Rightarrow>
               (let configMap = generateConfigFromServer server
                in case map fst (ownProps configMap) of
                     [] \<Rightarrow> JNull
                   | configKey # _ \<Rightarrow>
                       if configKey = [] \<or> truthy (getProp (getProp configMap configKey) ''note'')
                       then JNull
                       else getProp configMap configKey))
      | _ \<Rightarrow> JNull)"


text \<open>Two catalog entries of the same name: one for local installation only, one with a remote.\<close>

definition localOnlyServer :: server where
  "localOnlyServer =
     \<lparr>sv_name = ''acme/search'', sv_remotes = None, sv_description = JStr ''local install'',
      sv_version = JStr ''1.0.0'', sv_repository_url = JUndefined, sv_packages = JArr []\<rparr>"

definition secretHeaderDecl :: header_decl where
  "secretHeaderDecl = \<lparr>hd_name = ''x-api-key'', hd_isSecret = JBool True, hd_value = JUndefined\<rparr>"

definition sseRemote :: remote where
  "sseRemote =
     \<lparr>rm_type = JStr ''sse'', rm_url = JStr ''https://search.acme.example/sse'',
      rm_headers = Some [secretHeaderDecl]\<rparr>"

definition remoteServer :: server where
  "remoteServer =
     \<lparr>sv_name = ''acme/search'', sv_remotes = Some [sseRemote],
      sv_description = JStr ''hosted'', sv_version = JStr ''1.0.0'',
      sv_repository_url = JUndefined, sv_packages = JUndefined\<rparr>"

text \<open>
  The lookup as the specification words it, for comparison with \<^const>\<open>findServer\<close>:
  the catalog is first filtered to the entries that advertise at least one remote endpoint,
  then matched by exact name, then by normalized name, over the eligible entries only.
\<close>

definition advertisesRemote :: "server \<Rightarrow> bool" where
  "advertisesRemote s = (case sv_remotes s of None \<Rightarrow> False | Some rs \<Rightarrow> rs \<noteq> [])"

definition specifiedFindServer :: "server list \<Rightarrow> string \<Rightarrow> server option" where
  "specifiedFindServer servers toolName =
     (let eligible = filter advertisesRemote servers
      in case find (\<lambda>s. sv_name s = toolName) eligible of
           Some s \<Rightarrow> Some s
         | None \<Rightarrow>
             find (\<lambda>s. normalizeName (sv_name s) = normalizeName toolName
                        \<or> includesStr (normalizeName (sv_name s)) (normalizeName toolName)
                        \<or> includesStr (normalizeName toolName) (normalizeName (sv_name s)))
                  eligible)"

section \<open>Tool resolution and execution (backend/handlers.js)\<close>

text \<open>
  \<^verbatim>\<open>new URL(s)\<close> is the platform's URL parser: it throws on a string that is not an
  absolute URL and otherwise gives, among others, the protocol (with its colon) and the
  host name. It is a parameter of the model.
\<close>

record url =
  protocol :: string
  hostname :: string

type_synonym url_parser = "string \<Rightarrow> url option"

text \<open>\<^verbatim>\<open>MCP_SERVER_CONFIG\<close>: the default configuration and no host-specific override.\<close>

definition defaultServerConfig :: props where
  "defaultServerConfig =
     [(''commonEndpoints'', JArr [JStr ''/mcp'', JStr ''/sse'']),
      (''defaultHeaders'', JObj []),
      (''requireApproval'', JStr ''never'')]"

definition MCP_SERVER_CONFIG :: "(string \<times> props) list" where
  "MCP_SERVER_CONFIG = [(''default'', defaultServerConfig)]"

definition getMcpServerConfig :: "url_parser \<Rightarrow> string \<Rightarrow> props" where
  "getMcpServerConfig parseUrl u =
     (case parseUrl u of
        None \<Rightarrow> defaultServerConfig
      | Some urlObj \<Rightarrow>
          (case find (\<lambda>(pattern, config). pattern \<noteq> ''default'' \<and> includesStr (hostname urlObj) pattern)
                  MCP_SERVER_CONFIG of
             Some (pattern, config) \<Rightarrow> spread (spread [] (JObj defaultServerConfig)) (JObj config)
           | None \<Rightarrow> defaultServerConfig))"

text \<open>\<^verbatim>\<open>createConfigFromUrl(url)\<close>: \<^verbatim>\<open>null\<close> when the URL does not parse.\<close>

definition createConfigFromUrl :: "url_parser \<Rightarrow> string \<Rightarrow> jsval" where
  "createConfigFromUrl parseUrl u =
     (case parseUrl u of
        None \<Rightarrow> JNull
      | Some urlObj \<Rightarrow>
          (let serverConfig = getMcpServerConfig parseUrl u
           in JObj
                [(''type'', JStr ''mcp''),
                 (''server_label'', JStr (''Custom MCP Server ('' @ hostname urlObj @ '')'')),
                 (''server_url'', JStr u),
                 (''headers'', getOwn serverConfig ''defaultHeaders''),
                 (''require_approval'', getOwn serverConfig ''requireApproval''),
                 (''_meta'', JObj
                    [(''description'', JStr (''Custom MCP server at '' @ hostname urlObj)),
                     (''source'', JStr ''dynamic_url''),
                     (''config'', JObj serverConfig)])]))"

definition isUrlTool :: "url_parser \<Rightarrow> string \<Rightarrow> bool" where
  "isUrlTool parseUrl toolParam =
     (case parseUrl toolParam of
        None \<Rightarrow> False
      | Some u \<Rightarrow> protocol u = ''http:'' \<or> protocol u = ''https:'')"

text \<open>
  The servers discovered in the conversation, as \<^verbatim>\<open>extractDiscoveredServers\<close> returns
  them: the entries of its map in insertion order, each a server URL with the tool names
  announced for it. \<^verbatim>\<open>findServerForTool\<close> returns the first URL whose tools include
  the name.
\<close>

type_synonym discovered = "(string \<times> string list) list"

definition findServerForTool :: "string \<Rightarrow> discovered \<Rightarrow> string option" where
  "findServerForTool toolName discoveredServers =
     (case find (\<lambda>(serverUrl, tools). toolName \<in> set tools) discoveredServers of
        Some (serverUrl, tools) \<Rightarrow> Some serverUrl
      | None \<Rightarrow> None)"

text \<open>
  What the program does to the outside while it handles one request: fetches of the
  public catalog (one per call of \<^verbatim>\<open>lookupFromMcpRegistry\<close>) and calls of the
  Upstream Gateway \<^verbatim>\<open>groqResponses(apiKey, model, input, tools)\<close>.
\<close>

record gateway_call =
  gc_apiKey :: string
  gc_model :: string
  gc_input :: string
  gc_tools :: "props list"

datatype event = RegistryFetch string | GatewayCall gateway_call

text \<open>
  The surroundings of a request. The catalog reply may differ from fetch to fetch, so it
  is given per position of the name in the batch; the gateway's outcome is given per call,
  counted from 0: it throws an error with a message (\<open>Inl\<close>) or returns a response.
  \<open>w_cache toolName serverUrl\<close> is the array of tool schemas (objects) that
  \<^verbatim>\<open>toolSchemaCache\<close> holds under the key \<^verbatim>\<open>`${toolName}_${serverUrl}`\<close>, if
  any. \<^verbatim>\<open>groqResponses\<close> sends one request to the Responses endpoint per call and
  throws an \<^verbatim>\<open>Error\<close> with a message when the request or the reply fails.
\<close>

record world =
  w_registry :: props
  w_parseUrl :: url_parser
  w_env :: env
  w_discovered :: discovered
  w_catalog :: "nat \<Rightarrow> catalog_reply"
  w_cache :: "string \<Rightarrow> jsval \<Rightarrow> props list option"
  w_gateway :: "nat \<Rightarrow> gateway_call \<Rightarrow> string + jsval"

text \<open>
  The resolution chain, lines 162 to 199 of \<^verbatim>\<open>handleToolExecution\<close>, for the name at
  position \<open>i\<close> of the batch: the registry entry; replaced by a configuration made from
  the name when the name is an http or https URL; if there is still none, a configuration
  made from the conversation-discovered server of the tool; if there is still none, the
  public registry. The result is the configuration (falsy when the name is not resolved)
  with the catalog fetches made.
\<close>

definition resolveTool :: "world \<Rightarrow> nat \<Rightarrow> string \<Rightarrow> jsval \<times> event list" where
  "resolveTool w i toolName =
     (let toolConfig0 = readKey (w_registry w) toolName;
          toolConfig1 = (if isUrlTool (w_parseUrl w) toolName
                         then createConfigFromUrl (w_parseUrl w) toolName
                         else toolConfig0);
          toolConfig2 = (if \<not> truthy toolConfig1
                         then (case findServerForTool toolName (w_discovered w) of
                                 Some serverUrl \<Rightarrow>
                                   if serverUrl \<noteq> []
                                   then createConfigFromUrl (w_parseUrl w) serverUrl
                                   else toolConfig1
                               | None \<Rightarrow> toolConfig1)
                         else toolConfig1)
      in if \<not> truthy toolConfig2
         then (lookupFromMcpRegistry (w_catalog w i) toolName, [RegistryFetch toolName])
         else (toolConfig2, []))"

text \<open>ASCII white space, for \<^verbatim>\<open>trim\<close>; \<^verbatim>\<open>split\<close> on one character.\<close>

definition isSpace :: "char \<Rightarrow> bool" where
  "isSpace c = (c \<in> set [CHR '' '', CHR 0x09, CHR 0x0A, CHR 0x0B, CHR 0x0C, CHR 0x0D])"

definition trim :: "string \<Rightarrow> string" where
  "trim s = rev (dropWhile isSpace (rev (dropWhile isSpace s)))"

fun splitOn :: "char \<Rightarrow> string \<Rightarrow> string list" where
  "splitOn sep [] = [[]]"
| "splitOn sep (c # s) =
     (if c = sep then [] # splitOn sep s
      else (case splitOn sep s of
              seg # segs \<Rightarrow> (c # seg) # segs
            | [] \<Rightarrow> [[c]]))"

text \<open>
  The caller's headers for one tool: \<^verbatim>\<open>userToolHeaders[toolName] || {}\<close>, and when
  that has no keys the first of four variants of the name that is a key of
  \<^verbatim>\<open>userToolHeaders\<close>. \<^verbatim>\<open>userToolHeaders\<close> is given by its own properties,
  whose values are header objects (inherited members are not header objects and are left
  out of this lookup).
\<close>

definition possibleKeys :: "string \<Rightarrow> string list" where
  "possibleKeys toolName =
     [toLowerCase toolName,
      map (\<lambda>c. if isAlnum c then c else CHR ''_'') toolName,
      last (splitOn CHR ''/'' toolName),
      last (splitOn CHR ''.'' toolName)]"

definition headersForTool :: "(string \<times> props) list \<Rightarrow> string \<Rightarrow> props" where
  "headersForTool userToolHeaders toolName =
     (let toolHeaders = (case map_of userToolHeaders toolName of Some h \<Rightarrow> h | None \<Rightarrow> [])
      in if length (map fst toolHeaders) = 0
         then (case find (\<lambda>key. case map_of userToolHeaders key of Some h \<Rightarrow> True | None \<Rightarrow> False)
                      (possibleKeys toolName) of
                 Some key \<Rightarrow> (case map_of userToolHeaders key of Some h \<Rightarrow> h | None \<Rightarrow> toolHeaders)
               | None \<Rightarrow> toolHeaders)
         else toolHeaders)"

text \<open>
  The result of \<^verbatim>\<open>handleToolExecution\<close>: \<^verbatim>\<open>{ error: true, status, response }\<close> or
  \<^verbatim>\<open>{ error: false, response }\<close>. Of the response objects the explanatory texts
  (example, suggestion, troubleshooting) are left out.
\<close>

datatype exec_result = Failure nat jsval | Success jsval

definition notFoundMessage :: "string \<Rightarrow> string" where
  "notFoundMessage toolName =
     ''Tool '' @ [CHR 0x27] @ toolName @ [CHR 0x27]
       @ '' not found in local registry, MCP registry, or is not a valid URL''"

definition notFound :: "world \<Rightarrow> string \<Rightarrow> exec_result" where
  "notFound w toolName =
     Failure 404 (JObj [(''error'', JStr (notFoundMessage toolName)),
                        (''availableTools'', JArr (map (\<lambda>k. JStr k) (map fst (w_registry w))))])"

text \<open>
  The loop over the tool names (lines 161 to 255), from position \<open>i\<close>: it stops at the
  first name whose configuration is falsy with the not-found result, and otherwise
  collects the resolved tools. The missing-key warning only writes to the log.
\<close>

fun resolveTools ::
  "world \<Rightarrow> (string \<times> props) list \<Rightarrow> nat \<Rightarrow> string list \<Rightarrow> (exec_result + props list) \<times> event list"
where
  "resolveTools w userToolHeaders i [] = (Inr [], [])"
| "resolveTools w userToolHeaders i (toolName # rest) =
     (case resolveTool w i toolName of
        (toolConfig, evs) \<Rightarrow>
          if \<not> truthy toolConfig then (Inl (notFound w toolName), evs)
          else (let resolvedTool =
                      resolveToolConfig toolConfig (headersForTool userToolHeaders toolName) (w_env w)
                in case resolveTools w userToolHeaders (Suc i) rest of
                     (Inl failure, evs') \<Rightarrow> (Inl failure, evs @ evs')
                   | (Inr tools, evs') \<Rightarrow> (Inr (resolvedTool # tools), evs @ evs')))"

text \<open>\<^verbatim>\<open>getCachedToolSchema(toolName, serverUrl)\<close>\<close>

definition getCachedToolSchema :: "world \<Rightarrow> string \<Rightarrow> jsval \<Rightarrow> props option" where
  "getCachedToolSchema w toolName serverUrl =
     (case w_cache w toolName serverUrl of
        Some cachedTools \<Rightarrow> find (\<lambda>tool. isStr (getOwn tool ''name'') toolName) cachedTools
      | None \<Rightarrow> None)"

text \<open>
  The query sent with the first gateway call (lines 259 to 285): for a single tool and a
  query that says \<^verbatim>\<open>run\<close> or \<^verbatim>\<open>execute\<close>, a phrase built from the cached schema
  of the tool; the caller's query otherwise.
\<close>

definition modifiedQuery :: "world \<Rightarrow> string list \<Rightarrow> props list \<Rightarrow> string \<Rightarrow> string" where
  "modifiedQuery w toolNames tools query =
     (case toolNames of
        [toolName] \<Rightarrow>
          if includesStr (toLowerCase query) ''run '' \<or> includesStr (toLowerCase query) ''execute ''
          then (case tools of
                  [] \<Rightarrow> query
                | tool # others \<Rightarrow>
                    (let serverUrl = getOwn tool ''server_url''
                     in if truthy serverUrl
                        then (case getCachedToolSchema w toolName serverUrl of
                                Some toolSchema \<Rightarrow>
                                  (let properties = getProp (getOwn toolSchema ''inputSchema'') ''properties'';
                                       params = (if truthy properties then properties else JObj []);
                                       paramNames = map fst (ownProps params)
                                   in if length paramNames = 0
                                      then ''Use the '' @ toolName @ '' tool without any parameters''
                                      else ''Use the '' @ toolName @ '' tool''
                                             @ (if ''topic'' \<in> set paramNames then []
                                                else '' without specifying a topic''))
                              | None \<Rightarrow> ''Use the '' @ toolName @ '' tool with default settings'')
                        else query))
          else query
      | _ \<Rightarrow> query)"

text \<open>The classification of a failure by its message (lines 305 to 339).\<close>

definition isMcpTool :: "props \<Rightarrow> bool" where
  "isMcpTool tool = isStr (getOwn tool ''type'') ''mcp''"

definition classifyFailure :: "props list \<Rightarrow> string \<Rightarrow> exec_result" where
  "classifyFailure tools message =
     (if (includesStr message ''500'' \<or> includesStr message ''400'') \<and> (\<exists>tool \<in> set tools. isMcpTool tool)
      then Failure 500 (JObj
             [(''error'', JStr (if includesStr message ''400''
                                then ''MCP Tool Schema Validation Failed''
                                else ''MCP Server Execution Failed'')),
              (''details'', JStr message),
              (''mcp_servers'', JArr (map (\<lambda>tool. getOwn tool ''server_url'') (filter isMcpTool tools)))])
      else Failure (if includesStr message ''401'' then 401 else 500) (JStr message))"

text \<open>
  The gateway stage (lines 257 to 340): one call with the full tool list; when it throws
  a message containing \<^verbatim>\<open>did not match schema\<close> and the batch has one name, a second
  call with the query \<^verbatim>\<open>`Use the ${toolNames[0]} tool`\<close>; when that throws too, the
  first error is classified.
\<close>

definition executeTools ::
  "world \<Rightarrow> string \<Rightarrow> string \<Rightarrow> string list \<Rightarrow> string \<Rightarrow> props list \<Rightarrow> exec_result \<times> event list"
where
  "executeTools w apiKey model toolNames query tools =
     (let call0 = \<lparr>gc_apiKey = apiKey, gc_model = model,
                    gc_input = modifiedQuery w toolNames tools query, gc_tools = tools\<rparr>
      in case w_gateway w 0 call0 of
           Inr result \<Rightarrow> (Success result, [GatewayCall call0])
         | Inl message \<Rightarrow>
             (case toolNames of
                [toolName] \<Rightarrow>
                  if includesStr message ''did not match schema''
                  then (let call1 = \<lparr>gc_apiKey = apiKey, gc_model = model,
                                      gc_input = ''Use the '' @ toolName @ '' tool'', gc_tools = tools\<rparr>
                        in case w_gateway w 1 call1 of
                             Inr result \<Rightarrow> (Success result, [GatewayCall call0, GatewayCall call1])
                           | Inl retryMessage \<Rightarrow>
                               (classifyFailure tools message, [GatewayCall call0, GatewayCall call1]))
                  else (classifyFailure tools message, [GatewayCall call0])
              | _ \<Rightarrow> (classifyFailure tools message, [GatewayCall call0])))"

text \<open>
  \<^verbatim>\<open>handleToolExecution(toolsParam, query, model, apiKey, userToolHeaders, conversationHistory)\<close>,
  with the servers discovered in the conversation taken from the world. A missing
  parameter is the empty string.
\<close>

definition availableTools :: "world \<Rightarrow> jsval" where
  "availableTools w = JArr (map (\<lambda>k. JStr k) (map fst (w_registry w)))"

definition handleToolExecution ::
  "world \<Rightarrow> string \<Rightarrow> string \<Rightarrow> string \<Rightarrow> string \<Rightarrow> (string \<times> props) list \<Rightarrow> exec_result \<times> event list"
where
  "handleToolExecution w toolsParam query model apiKey userToolHeaders =
     (if toolsParam = []
      then (Failure 400 (JObj [(''error'', JStr ''tools parameter is required''),
                               (''availableTools'', availableTools w)]), [])
      else if query = []
      then (Failure 400 (JObj [(''error'', JStr (''Query parameter '' @ [CHR 0x22] @ ''q'' @ [CHR 0x22]
                                                   @ '' is required for execute mode'')),
                               (''availableTools'', availableTools w)]), [])
      else (let toolNames = map trim (splitOn CHR '','' toolsParam)
            in case resolveTools w userToolHeaders 0 toolNames of
                 (Inl failure, evs) \<Rightarrow> (failure, evs)
               | (Inr tools, evs) \<Rightarrow>
                   (case executeTools w apiKey model toolNames query tools of
                      (result, evs') \<Rightarrow> (result, evs @ evs'))))"

text \<open>The gateway calls among the events of a request.\<close>

fun gatewayCalls :: "event list \<Rightarrow> gateway_call list" where
  "gatewayCalls [] = []"
| "gatewayCalls (GatewayCall c # evs) = c # gatewayCalls evs"
| "gatewayCalls (RegistryFetch n # evs) = gatewayCalls evs"

text \<open>The other two entries, and the registry.\<close>

definition github :: jsval where
  "github = JObj
     [(''type'', JStr ''mcp''),
      (''server_label'', JStr ''GitHub''),
      (''server_url'', JStr ''https://api.githubcopilot.com/mcp/''),
      (''headers'', JObj [(''Authorization'',
          JFun (\<lambda>env. JStr (''Bearer '' @ (case env ''GITHUB_TOKEN'' of Some s \<Rightarrow> s | None \<Rightarrow> ''undefined''))))]),
      (''require_approval'', JStr ''never''),
      (''_meta'', JObj [(''description'', JStr ''GitHub repository management and operations'')])]"

definition huggingface :: jsval where
  "huggingface = JObj
     [(''type'', JStr ''mcp''),
      (''server_label'', JStr ''Huggingface''),
      (''server_url'', JStr ''https://huggingface.co/mcp''),
      (''headers'', JObj []),
      (''require_approval'', JStr ''never''),
      (''_meta'', JObj [(''description'', JStr ''Hugging Face model discovery and information'')])]"

definition toolsRegistry :: props where
  "toolsRegistry =
     [(''parallel_web_search'', parallel_web_search), (''github'', github), (''huggingface'', huggingface)]"

text \<open>
  A concrete request environment for evaluating the model: the URL parser at the one URL
  used, the registry of \<^verbatim>\<open>tools.js\<close>, an environment with the search key set, a
  catalog of two entries, an empty schema cache, and a gateway whose first call fails
  with the schema-validation signature.
\<close>

definition exampleParseUrl :: url_parser where
  "exampleParseUrl s =
     (if s = ''https://example.com/mcp''
      then Some \<lparr>protocol = ''https:'', hostname = ''example.com''\<rparr>
      else None)"

definition exampleWorld :: world where
  "exampleWorld =
     \<lparr>w_registry = toolsRegistry, w_parseUrl = exampleParseUrl,
      w_env = (\<lambda>n. if n = ''PARALLEL_API_KEY'' then Some ''pk-live-0123456789'' else None),
      w_discovered = [],
      w_catalog = (\<lambda>i. Catalog [localOnlyServer, remoteServer]),
      w_cache = (\<lambda>n u. None),
      w_gateway = (\<lambda>i c. if i = 0 then Inl ''400: tool call did not match schema''
                           else Inr (JStr ''ok''))\<rparr>"

text \<open>
  The same request environment with a catalog whose only entry is for local installation,
  and a gateway that answers.
\<close>

definition localOnlyWorld :: world where
  "localOnlyWorld =
     \<lparr>w_registry = toolsRegistry, w_parseUrl = exampleParseUrl,
      w_env = (\<lambda>n. if n = ''PARALLEL_API_KEY'' then Some ''pk-live-0123456789'' else None),
      w_discovered = [],
      w_catalog = (\<lambda>i. Catalog [localOnlyServer]),
      w_cache = (\<lambda>n u. None),
      w_gateway = (\<lambda>i c. Inr (JStr ''ok''))\<rparr>"

section \<open>Router (backend/ai.js)\<close>



type_synonym json_parser = "jsval \<Rightarrow> jsval option"

datatype exn = FetchFailed | BodyFailed | RoutingApiError nat string | TypeError | SyntaxError

record message =
  m_type :: string
  m_content :: string

fun nullish :: "jsval \<Rightarrow> bool" where
  "nullish JUndefined = True"
| "nullish JNull = True"
| "nullish v = False"

text \<open>\<^verbatim>\<open>v.k\<close> throws a TypeError on null and undefined; \<^verbatim>\<open>v?.k\<close> reads undefined there.\<close>

definition readMember :: "jsval \<Rightarrow> string \<Rightarrow> exn + jsval" where
  "readMember v k = (if nullish v then Inl TypeError else Inr (getProp v k))"

definition optMember :: "jsval \<Rightarrow> string \<Rightarrow> jsval" where
  "optMember v k = (if nullish v then JUndefined else getProp v k)"

text \<open>\<^verbatim>\<open>v?.[0]\<close>: the first element of an array, the first character of a string.\<close>

fun optIndex0 :: "jsval \<Rightarrow> jsval" where
  "optIndex0 (JArr (x # xs)) = x"
| "optIndex0 (JStr (c # s)) = JStr [c]"
| "optIndex0 (JObj fs) = getOwn fs ''0''"
| "optIndex0 v = JUndefined"








text \<open>
  The failures that the claim lists, read off the reply: the call throws; the status is
  not OK; the output cannot be parsed as the expected shape (the body is not JSON, it is
  null, it has no truthy content, or the content does not parse); a required field
  (\<^verbatim>\<open>type\<close>, \<^verbatim>\<open>reasoning\<close>) is missing from the parsed decision.
\<close>

definition routedContent :: "jsval \<Rightarrow> jsval" where
  "routedContent routingData =
     optMember (optMember (optIndex0 (optMember routingData ''choices'')) ''message'') ''content''"


section \<open>JSON text\<close>

text \<open>
  \<^verbatim>\<open>JSON.stringify(value, null, n)\<close>: \<open>gap\<close> is the string of \<open>n\<close> spaces and
  \<open>indent\<close> the current indentation. Undefined and function values give no text:
  they are left out of objects and written \<^verbatim>\<open>null\<close> in arrays.
\<close>

definition showInt :: "int \<Rightarrow> string" where
  "showInt n = (if n < 0 then CHR ''-'' # showNat (nat (- n)) else showNat (nat n))"

text \<open>The characters that a JSON string escapes: quote, backslash and the control characters.\<close>

definition escapes :: "(char \<times> string) list" where
  "escapes =
     [(CHR 0x22, [CHR 0x5C, CHR 0x22]), (CHR 0x5C, [CHR 0x5C, CHR 0x5C]),
      (CHR 0x08, [CHR 0x5C, CHR ''b'']), (CHR 0x0C, [CHR 0x5C, CHR ''f'']),
      (CHR 0x0A, [CHR 0x5C, CHR ''n'']), (CHR 0x0D, [CHR 0x5C, CHR ''r'']),
      (CHR 0x09, [CHR 0x5C, CHR ''t'']),
      (CHR 0x00, CHR 0x5C # ''u0000''), (CHR 0x01, CHR 0x5C # ''u0001''),
      (CHR 0x02, CHR 0x5C # ''u0002''), (CHR 0x03, CHR 0x5C # ''u0003''),
      (CHR 0x04, CHR 0x5C # ''u0004''), (CHR 0x05, CHR 0x5C # ''u0005''),
      (CHR 0x06, CHR 0x5C # ''u0006''), (CHR 0x07, CHR 0x5C # ''u0007''),
      (CHR 0x0B, CHR 0x5C # ''u000b''), (CHR 0x0E, CHR 0x5C # ''u000e''),
      (CHR 0x0F, CHR 0x5C # ''u000f''), (CHR 0x10, CHR 0x5C # ''u0010''),
      (CHR 0x11, CHR 0x5C # ''u0011''), (CHR 0x12, CHR 0x5C # ''u0012''),
      (CHR 0x13, CHR 0x5C # ''u0013''), (CHR 0x14, CHR 0x5C # ''u0014''),
      (CHR 0x15, CHR 0x5C # ''u0015''), (CHR 0x16, CHR 0x5C # ''u0016''),
      (CHR 0x17, CHR 0x5C # ''u0017''), (CHR 0x18, CHR 0x5C # ''u0018''),
      (CHR 0x19, CHR 0x5C # ''u0019''), (CHR 0x1A, CHR 0x5C # ''u001a''),
      (CHR 0x1B, CHR 0x5C # ''u001b''), (CHR 0x1C, CHR 0x5C # ''u001c''),
      (CHR 0x1D, CHR 0x5C # ''u001d''), (CHR 0x1E, CHR 0x5C # ''u001e''),
      (CHR 0x1F, CHR 0x5C # ''u001f'')]"

definition quoteJson :: "string \<Rightarrow> string" where
  "quoteJson s =
     CHR 0x22 # concat (map (\<lambda>c. case map_of escapes c of Some e \<Rightarrow> e | None \<Rightarrow> [c]) s) @ [CHR 0x22]"

fun joinWith :: "string \<Rightarrow> string list \<Rightarrow> string" where
  "joinWith sep [] = []"
| "joinWith sep [x] = x"
| "joinWith sep (x # y # ys) = x @ sep @ joinWith sep (y # ys)"

primrec stringify :: "jsval \<Rightarrow> string \<Rightarrow> string \<Rightarrow> string option" where
  "stringify JUndefined gap indent = None"
| "stringify JNull gap indent  = Some ''null''"
| "stringify (JBool b) gap indent  = Some (if b then ''true'' else ''false'')"
| "stringify (JNum n) gap indent  = Some (showInt n)"
| "stringify (JStr s) gap indent  = Some (quoteJson s)"
| "stringify (JFun f) gap indent  = None"
| "stringify (JArr xs) gap indent  =
     (let stepback = indent; inner = indent @ gap;
          partial = map (\<lambda>x. case x of None \<Rightarrow> ''null'' | Some s \<Rightarrow> s) (map (\<lambda>x. stringify x gap inner) xs)
      in Some (if partial = [] then ''[]''
               else if gap = [] then ''['' @ joinWith '','' partial @ '']''
               else ''['' @ [CHR 0x0A] @ inner @ joinWith ('','' @ [CHR 0x0A] @ inner) partial
                      @ [CHR 0x0A] @ stepback @ '']''))"
| "stringify (JObj fs) gap indent  =
     (let stepback = indent; inner = indent @ gap;
          partial = concat (map (\<lambda>(k, r). case r of None \<Rightarrow> []
                                   | Some s \<Rightarrow> [quoteJson k @ (if gap = [] then '':'' else '': '') @ s])
                                (map (map_prod id (\<lambda>v. stringify v gap inner)) fs))
      in Some (if partial = [] then ''{}''
               else if gap = [] then ''{'' @ joinWith '','' partial @ ''}''
               else ''{'' @ [CHR 0x0A] @ inner @ joinWith ('','' @ [CHR 0x0A] @ inner) partial
                      @ [CHR 0x0A] @ stepback @ ''}''))"


text \<open>
  \<^verbatim>\<open>text.split('\n').map((line, index) => index === 0 ? line : pad + line).join('\n')\<close>
\<close>

definition indentLines :: "string \<Rightarrow> string \<Rightarrow> string" where
  "indentLines pad text =
     (case splitOn CHR 0x0A text of
        [] \<Rightarrow> []
      | first # others \<Rightarrow> joinWith [CHR 0x0A] (first # map (\<lambda>line. pad @ line) others))"

section \<open>Example generation\<close>

text \<open>The command text around the model, the query and the tools (a template literal).\<close>

definition curlTemplate :: "string \<Rightarrow> string \<Rightarrow> string \<Rightarrow> string" where
  "curlTemplate model input tools =
     ''curl -X POST '' @ [CHR 0x22] @ ''https://api.groq.com/openai/v1/responses'' @ [CHR 0x22]
       @ '' '' @ [CHR 0x5C, CHR 0x0A]
     @ ''  -H '' @ [CHR 0x22] @ ''Authorization: Bearer $GROQ_API_KEY'' @ [CHR 0x22]
       @ '' '' @ [CHR 0x5C, CHR 0x0A]
     @ ''  -H '' @ [CHR 0x22] @ ''Content-Type: application/json'' @ [CHR 0x22]
       @ '' '' @ [CHR 0x5C, CHR 0x0A]
     @ ''  -d '' @ [CHR 0x27] @ ''{'' @ [CHR 0x0A]
     @ ''    '' @ [CHR 0x22] @ ''model'' @ [CHR 0x22] @ '': '' @ [CHR 0x22] @ model @ [CHR 0x22] @ '','' @ [CHR 0x0A]
     @ ''    '' @ [CHR 0x22] @ ''input'' @ [CHR 0x22] @ '': '' @ [CHR 0x22] @ input @ [CHR 0x22] @ '','' @ [CHR 0x0A]
     @ ''    '' @ [CHR 0x22] @ ''tools'' @ [CHR 0x22] @ '': '' @ tools @ [CHR 0x0A]
     @ ''  }'' @ [CHR 0x27]"

subsection \<open>The backend: generateCurlCommand (backend/ai.js)\<close>

text \<open>
  The names that \<^verbatim>\<open>handlers.js\<close> exports. \<^verbatim>\<open>generateCurlCommand\<close> takes
  \<^verbatim>\<open>extractDiscoveredServers\<close>, \<^verbatim>\<open>findServerForTool\<close> and
  \<^verbatim>\<open>createConfigFromUrl\<close> from \<^verbatim>\<open>await import('./handlers.js')\<close> (line 146). A
  name that the module does not export is undefined there, and calling it throws a
  \<^verbatim>\<open>TypeError\<close>.
\<close>

definition handlersExports :: "string list" where
  "handlersExports =
     [''discoverMcpTools'', ''handleToolExecution'', ''handleToolListing'',
      ''executeSelectedTools'', ''aiToolSelection'']"

text \<open>
  The selection, by the fields that \<^verbatim>\<open>generateCurlCommand\<close> reads: name and registry
  of each selected tool, and the execution query.
\<close>

record selected_tool =
  st_name :: string
  st_registry :: string

record selection =
  sel_tools :: "selected_tool list"
  sel_query :: string

text \<open>
  The configuration pushed for the selected tool at position \<open>i\<close>, if any: resolved
  with no caller headers, \<^verbatim>\<open>resolveToolConfig(toolConfig, {})\<close>.
\<close>

definition curlToolFor :: "world \<Rightarrow> nat \<Rightarrow> selected_tool \<Rightarrow> props option" where
  "curlToolFor w i selected =
     (if st_registry selected = ''local''
      then (let toolConfig = readKey (w_registry w) (st_name selected)
            in if truthy toolConfig then Some (resolveToolConfig toolConfig [] (w_env w)) else None)
      else if st_registry selected = ''discovered''
      then (case findServerForTool (st_name selected) (w_discovered w) of
              Some serverUrl \<Rightarrow>
                if serverUrl \<noteq> []
                then (let toolConfig = createConfigFromUrl (w_parseUrl w) serverUrl
                      in if truthy toolConfig then Some (resolveToolConfig toolConfig [] (w_env w))
                         else None)
                else None
            | None \<Rightarrow> None)
      else (let dynamicConfig = lookupFromMcpRegistry (w_catalog w i) (st_name selected)
            in if truthy dynamicConfig then Some (resolveToolConfig dynamicConfig [] (w_env w)) else None))"

fun curlTools :: "world \<Rightarrow> nat \<Rightarrow> selected_tool list \<Rightarrow> props list" where
  "curlTools w i [] = []"
| "curlTools w i (selected # rest) =
     (case curlToolFor w i selected of
        Some resolvedConfig \<Rightarrow> resolvedConfig # curlTools w (Suc i) rest
      | None \<Rightarrow> curlTools w (Suc i) rest)"

record curl_result =
  curl_command :: string
  tools_config :: "props list"

text \<open>
  \<^verbatim>\<open>generateCurlCommand\<close>: the call of \<^verbatim>\<open>extractDiscoveredServers\<close> at line 149
  comes before anything else, and throws when the name is not exported. The rest is the
  body as it runs with the three names bound.
\<close>

definition generateCurlCommand :: "world \<Rightarrow> selection \<Rightarrow> string \<Rightarrow> exn + curl_result" where
  "generateCurlCommand w selectedTools model =
     (if ''extractDiscoveredServers'' \<notin> set handlersExports then Inl TypeError
      else (let tools = curlTools w 0 (sel_tools selectedTools);
                toolsJson = (case stringify (JArr (map JObj tools)) ''  '' [] of
                               Some t \<Rightarrow> t
                             | None \<Rightarrow> []);
                formattedTools = indentLines ''    '' toolsJson
            in Inr \<lparr>curl_command = curlTemplate model
                                      (if sel_query selectedTools = [] then ''Your query here''
                                       else sel_query selectedTools)
                                      formattedTools,
                    tools_config = tools\<rparr>))"

subsection \<open>The frontend: generateCurlFromResult\<close>














section \<open>Selection Engine (aiToolSelection in backend/handlers.js)\<close>

subsection \<open>The reply to a curl_generation decision\<close>







subsection \<open>The selection\<close>

text \<open>
  \<^verbatim>\<open>responseText.match(/\{[\s\S]*\}/)\<close>: the text from the first opening brace to the
  last closing brace after it, if there is one.
\<close>

definition extractJson :: "string \<Rightarrow> string option" where
  "extractJson responseText =
     (case dropWhile (\<lambda>c. c \<noteq> CHR ''{'') responseText of
        [] \<Rightarrow> None
      | brace # rest \<Rightarrow>
          (case rev (dropWhile (\<lambda>c. c \<noteq> CHR ''}'') (rev rest)) of
             [] \<Rightarrow> None
           | c # cs \<Rightarrow> Some (brace # c # cs)))"

text \<open>
  The object returned to the caller when the reply cannot be parsed (the platform's
  message text under \<^verbatim>\<open>parseError\<close> is left out).
\<close>

definition parseFailure :: "jsval \<Rightarrow> jsval" where
  "parseFailure selectionData =
     JObj [(''error'', JStr ''Failed to parse AI tool selection''), (''aiResponse'', selectionData)]"

text \<open>
  Lines 1174 to 1199: the selection parsed from the reply of the model (\<open>Inr\<close>), or the
  parse failure returned to the caller (\<open>Inl\<close>).
\<close>

definition parseSelection :: "json_parser \<Rightarrow> jsval \<Rightarrow> jsval + jsval" where
  "parseSelection JSON_parse selectionData =
     (case readMember selectionData ''choices'' of
        Inl e \<Rightarrow> Inl (parseFailure selectionData)
      | Inr choices \<Rightarrow>
          (let content = optMember (optMember (optIndex0 choices) ''message'') ''content'';
               responseText0 = (if truthy content then content else JStr []);
               responseText = (case responseText0 of
                                 JStr text \<Rightarrow> Some text
                               | v \<Rightarrow> stringify v [] [])
           in case responseText of
                None \<Rightarrow> Inl (parseFailure selectionData)
              | Some text \<Rightarrow>
                  (case extractJson text of
                     None \<Rightarrow> Inl (parseFailure selectionData)
                   | Some jsonText \<Rightarrow>
                       (case JSON_parse (JStr jsonText) of
                          None \<Rightarrow> Inl (parseFailure selectionData)
                        | Some selectedTools \<Rightarrow> Inr selectedTools))))"

text \<open>
  Lines 1174 to 1207: what \<^verbatim>\<open>aiToolSelection\<close> does with the reply of the model. It
  returns the parse failure, or passes the selection on to curl generation
  (\<^verbatim>\<open>generateCurlCommand(selectedTools, ...)\<close>) or to execution
  (\<^verbatim>\<open>executeSelectedTools(selectedTools, ...)\<close>).
\<close>

datatype handoff = ReturnsFailure jsval | ToCurlGeneration jsval | ToExecution jsval

definition handOffSelection :: "json_parser \<Rightarrow> string \<Rightarrow> jsval \<Rightarrow> handoff" where
  "handOffSelection JSON_parse mode selectionData =
     (case parseSelection JSON_parse selectionData of
        Inl failure \<Rightarrow> ReturnsFailure failure
      | Inr selectedTools \<Rightarrow>
          if mode = ''curl'' then ToCurlGeneration selectedTools else ToExecution selectedTools)"

text \<open>
  The names that \<^verbatim>\<open>executeSelectedTools\<close> executes (line 534):
  \<^verbatim>\<open>selectedTools.selected_tools?.map(t => t.name) || []\<close>.
\<close>

definition selectedToolNames :: "jsval \<Rightarrow> exn + jsval list" where
  "selectedToolNames selectedTools =
     (case readMember selectedTools ''selected_tools'' of
        Inl e \<Rightarrow> Inl e
      | Inr selected \<Rightarrow>
          if nullish selected then Inr []
          else (case selected of
                  JArr ts \<Rightarrow>
                    if list_ex nullish ts then Inl TypeError
                    else Inr (map (\<lambda>t. getProp t ''name'') ts)
                | _ \<Rightarrow> Inl TypeError))"

text \<open>
  A reply of the model that selects four tools, and the value of \<^verbatim>\<open>JSON.parse\<close> at the
  JSON text in it.
\<close>

definition fourTools :: jsval where
  "fourTools = JObj
     [(''selected_tools'', JArr
         [JObj [(''name'', JStr ''parallel_web_search''), (''reason'', JStr ''search''),
                (''registry'', JStr ''local'')],
          JObj [(''name'', JStr ''github''), (''reason'', JStr ''issues''),
                (''registry'', JStr ''local'')],
          JObj [(''name'', JStr ''huggingface''), (''reason'', JStr ''models''),
                (''registry'', JStr ''local'')],
          JObj [(''name'', JStr ''acme/search''), (''reason'', JStr ''more results''),
                (''registry'', JStr ''public'')]]),
      (''execution_query'', JStr ''find models and open an issue'')]"

definition fourToolsText :: string where
  "fourToolsText = (case stringify fourTools [] [] of Some text \<Rightarrow> text | None \<Rightarrow> [])"

definition fourToolsReplyText :: string where
  "fourToolsReplyText = ''Here is my selection: '' @ fourToolsText"

definition fourToolsReply :: jsval where
  "fourToolsReply = JObj
     [(''choices'', JArr [JObj [(''message'', JObj [(''content'', JStr fourToolsReplyText)])]])]"

definition parseFourTools :: json_parser where
  "parseFourTools v = (if isStr v fourToolsText then Some fourTools else None)"

section \<open>The Credential Resolver on a store\<close>

text \<open>
  JavaScript objects are shared and mutable: the registry's descriptor, its header object
  and the caller's header object are reached through references, and
  \<^verbatim>\<open>resolveToolConfig\<close> allocates, assigns and deletes. To state that it leaves its
  inputs alone, the same function is modelled on a store: a list of objects addressed by
  their position, whose property values are plain values or references.
  \<^verbatim>\<open>{ ...v }\<close> copies the properties of \<open>v\<close> as they are (references stay shared).
\<close>

type_synonym addr = nat

datatype hval = Val jsval | Ref addr

type_synonym hobj = "(string \<times> hval) list"

type_synonym heap = "hobj list"

fun truthyH :: "hval \<Rightarrow> bool" where
  "truthyH (Ref a) = True"
| "truthyH (Val v) = truthy v"

text \<open>The own enumerable properties of a value in a store.\<close>

definition propsAt :: "heap \<Rightarrow> hval \<Rightarrow> hobj" where
  "propsAt h v =
     (case v of
        Ref a \<Rightarrow> if a < length h then h ! a else []
      | Val x \<Rightarrow> map (\<lambda>(k, y). (k, Val y)) (ownProps x))"

definition getH :: "hobj \<Rightarrow> string \<Rightarrow> hval" where
  "getH fs k = (case map_of fs k of Some v \<Rightarrow> v | None \<Rightarrow> Val JUndefined)"

definition readKeyH :: "hobj \<Rightarrow> string \<Rightarrow> hval" where
  "readKeyH fs k = (case map_of fs k of Some v \<Rightarrow> v | None \<Rightarrow> Val (inherited k))"

text \<open>A new object; \<^verbatim>\<open>o[k] = v\<close>; \<^verbatim>\<open>delete o[k]\<close>.\<close>

definition alloc :: "heap \<Rightarrow> hobj \<Rightarrow> heap \<times> addr" where
  "alloc h obj = (h @ [obj], length h)"

definition assign :: "heap \<Rightarrow> addr \<Rightarrow> string \<Rightarrow> hval \<Rightarrow> heap" where
  "assign h a k v = h[a := AList.update k v (h ! a)]"

definition deleteProp :: "heap \<Rightarrow> addr \<Rightarrow> string \<Rightarrow> heap" where
  "deleteProp h a k = h[a := AList.delete k (h ! a)]"

definition spreadH :: "heap \<Rightarrow> hobj \<Rightarrow> hval \<Rightarrow> hobj" where
  "spreadH h acc v = fold (\<lambda>(k, x) ob. AList.update k x ob) (propsAt h v) acc"

text \<open>The value that one iteration of the header loop stores.\<close>

definition resolveHeaderH :: "hobj \<Rightarrow> env \<Rightarrow> string \<Rightarrow> hval \<Rightarrow> hval" where
  "resolveHeaderH userHeaders env key val =
     (if truthyH (readKeyH userHeaders key) then readKeyH userHeaders key
      else (case val of Val (JFun f) \<Rightarrow> Val (f env) | _ \<Rightarrow> val))"

definition resolveHeaderStep :: "addr \<Rightarrow> env \<Rightarrow> addr \<Rightarrow> string \<times> hval \<Rightarrow> heap \<Rightarrow> heap" where
  "resolveHeaderStep userHeaders env resolvedHeaders kv h =
     (case kv of (key, val) \<Rightarrow>
        assign h resolvedHeaders key (resolveHeaderH (h ! userHeaders) env key val))"

text \<open>
  \<^verbatim>\<open>resolveToolConfig(toolConfig, userHeaders)\<close> on a store: the descriptor is a value
  or a reference, the caller's headers are an object of the store. The result is the
  new store and the address of the resolved tool.
\<close>

definition resolveToolConfigH :: "heap \<Rightarrow> hval \<Rightarrow> addr \<Rightarrow> env \<Rightarrow> heap \<times> addr" where
  "resolveToolConfigH h0 toolConfig userHeaders env =
     (let (h1, resolved) = alloc h0 (spreadH h0 [] toolConfig);
          h2 = deleteProp h1 resolved ''_meta'';
          h3 = deleteProp h2 resolved ''_registry'';
          h6 = (if truthyH (getH (h3 ! resolved) ''headers'')
                then (let (h4, resolvedHeaders) = alloc h3 [];
                          h5 = fold (resolveHeaderStep userHeaders env resolvedHeaders)
                                    (propsAt h4 (getH (h4 ! resolved) ''headers'')) h4
                      in assign h5 resolved ''headers'' (Ref resolvedHeaders))
                else h3);
          (h7, merged) =
             alloc h6 (spreadH h6 (spreadH h6 [] (getH (h6 ! resolved) ''headers'')) (Ref userHeaders))
      in (assign h7 resolved ''headers'' (Ref merged), resolved))"

text \<open>
  What a caller sees of a resolved tool in a store: its properties other than the
  headers, and the entries of its header object.
\<close>

definition resolvedView :: "heap \<times> addr \<Rightarrow> hobj \<times> hobj" where
  "resolvedView hr =
     (case hr of (h, resolved) \<Rightarrow>
        (AList.delete ''headers'' (h ! resolved), propsAt h (getH (h ! resolved) ''headers'')))"

text \<open>A reference is valid in a store when it addresses one of its objects.\<close>

fun validRef :: "heap \<Rightarrow> hval \<Rightarrow> bool" where
  "validRef h (Ref a) = (a < length h)"
| "validRef h (Val v) = True"

text \<open>
  A store with the search descriptor of the registry (object 0, its header object with the
  thunk is object 1, its metadata object 2) and two header objects of two callers
  (objects 3 and 4).
\<close>

definition registryHeap :: heap where
  "registryHeap =
     [[(''type'', Val (JStr ''mcp'')),
       (''server_label'', Val (JStr ''parallel_web_search'')),
       (''server_url'', Val (JStr ''https://mcp.parallel.ai/v1beta/search_mcp/'')),
       (''headers'', Ref 1),
       (''require_approval'', Val (JStr ''never'')),
       (''_meta'', Ref 2)],
      [(''x-api-key'',
          Val (JFun (\<lambda>env. case env ''PARALLEL_API_KEY'' of Some s \<Rightarrow> JStr s | None \<Rightarrow> JUndefined)))],
      [(''description'', Val (JStr ''Web search with AI-optimized results''))],
      [(''x-api-key'', Val (JStr ''key-of-first-caller''))],
      []]"

text \<open>
  Auxiliary definitions for the proofs about the store: the objects that a resolution
  appends to the store, written out; the view of its result as a function of the contents
  of the three input objects; a flat object of plain values put into a store.
\<close>

definition resolvedObjects :: "heap \<Rightarrow> hval \<Rightarrow> addr \<Rightarrow> env \<Rightarrow> hobj list" where
  "resolvedObjects h tc uh env =
     (let r2 = AList.delete ''_registry'' (AList.delete ''_meta'' (spreadH h [] tc));
          hv = getH r2 ''headers'';
          n = length h
      in if truthyH hv
         then (let rh = fold (\<lambda>(key, val) acc.
                                 AList.update key (resolveHeaderH (h ! uh) env key val) acc)
                             (propsAt h hv) [];
                   merged = fold (\<lambda>(k, x) ob. AList.update k x ob) (h ! uh)
                              (fold (\<lambda>(k, x) ob. AList.update k x ob) rh [])
               in [AList.update ''headers'' (Ref (n + 2))
                     (AList.update ''headers'' (Ref (n + 1)) r2), rh, merged])
         else [AList.update ''headers'' (Ref (n + 1)) r2,
               fold (\<lambda>(k, x) ob. AList.update k x ob) (h ! uh) []])"

definition viewOf :: "hobj \<Rightarrow> hobj \<Rightarrow> hobj \<Rightarrow> env \<Rightarrow> hobj \<times> hobj" where
  "viewOf config headerEntries userHeaders env =
     (AList.delete ''headers'' (AList.delete ''_registry'' (AList.delete ''_meta'' config)),
      if truthyH (getH config ''headers'')
      then fold (\<lambda>(k, x) ob. AList.update k x ob) userHeaders
             (fold (\<lambda>(k, x) ob. AList.update k x ob)
                (fold (\<lambda>(key, val) acc.
                         AList.update key (resolveHeaderH userHeaders env key val) acc)
                      headerEntries [])
                [])
      else fold (\<lambda>(k, x) ob. AList.update k x ob) userHeaders [])"

definition inStore :: "props \<Rightarrow> hobj" where
  "inStore fs = map (\<lambda>(k, v). (k, Val v)) fs"

definition searchEnv :: env where
  "searchEnv n = (if n = ''PARALLEL_API_KEY'' then Some ''pk-live-0123456789'' else None)"

section \<open>Properties\<close>

lemma map_of_fold_update:
  "map_of (fold (\<lambda>(k, x) ob. AList.update k x ob) xs acc) = map_of acc ++ map_of (rev xs)"
proof (induction xs arbitrary: acc)
  case Nil
  show ?case by simp
next
  case (Cons kv xs)
  obtain k x where kv: "kv = (k, x)" by (cases kv)
  show ?case
    by (simp add: kv Cons.IH update_conv' fun_eq_iff map_add_def
             split: option.splits)
qed

lemma map_of_rev_distinct:
  assumes "distinct (map fst xs)" and "map_of xs k = Some v"
  shows "map_of (rev xs) k = Some v"
proof -
  from assms have "(k, v) \<in> set (rev xs)" by (simp add: map_of_eq_Some_iff)
  moreover from assms(1) have "distinct (map fst (rev xs))" by (simp add: rev_map [symmetric])
  ultimately show ?thesis by (simp only: map_of_eq_Some_iff)
qed

lemma getOwn_update_same: "getOwn (AList.update k v fs) k = v"
  by (simp add: getOwn_def update_conv')

lemma map_of_spread: "map_of (spread acc v) = map_of acc ++ map_of (rev (ownProps v))"
  by (simp add: spread_def map_of_fold_update)

text \<open>The headers of the result are the final merge of the resolved headers with the caller's.\<close>

lemma headersOf_resolveToolConfig:
  "headersOf (resolveToolConfig tc uh env) =
     spread (spread [] (getOwn
       (let resolved2 = AList.delete ''_registry'' (AList.delete ''_meta'' (spread [] tc))
        in (if truthy (getOwn resolved2 ''headers'')
            then AList.update ''headers''
                   (JObj (resolveHeaders uh env (ownProps (getOwn resolved2 ''headers''))))
                   resolved2
            else resolved2)) ''headers'')) (JObj uh)"
  by (simp add: headersOf_def resolveToolConfig_def Let_def getOwn_update_same)

subsection \<open>Caller-supplied headers take precedence\<close>

text \<open>
  Claim C1. For every tool descriptor (any value), every caller-supplied header object and
  every environment: each header name for which the caller supplies a value resolves to
  exactly the caller's value, whatever the descriptor's literal default or its
  environment-backed thunk would give. The caller's headers are a JavaScript object, so
  their names are distinct.
\<close>

theorem caller_header_wins:
  assumes "distinct (map fst userHeaders)" and "map_of userHeaders k = Some v"
  shows "getOwn (headersOf (resolveToolConfig toolConfig userHeaders env)) k = v"
  using assms
  by (simp add: headersOf_resolveToolConfig getOwn_def map_of_spread map_of_rev_distinct
        map_add_def)

theorem caller_header_wins_witness:
  "distinct (map fst [(''x-api-key'', JStr ''user-key'')]) \<and>
   map_of [(''x-api-key'', JStr ''user-key'')] ''x-api-key'' = Some (JStr ''user-key'') \<and>
   getOwn (headersOf (resolveToolConfig parallel_web_search [(''x-api-key'', JStr ''user-key'')]
       (\<lambda>n. if n = ''PARALLEL_API_KEY'' then Some ''env-key'' else None))) ''x-api-key''
     = JStr ''user-key''"
  using caller_header_wins [of "[(''x-api-key'', JStr ''user-key'')]" "''x-api-key''"
      "JStr ''user-key''" parallel_web_search
      "(\<lambda>n. if n = ''PARALLEL_API_KEY'' then Some ''env-key'' else None)"]
  by simp










subsection \<open>Secret headers of public-registry descriptors\<close>




lemmas str_eval = toUpperCase_def toUpperChar_def toLowerCase_def toLowerChar_def lowerChars_def
  upperChars_def digitChars_def isAlnum_def dashesToUnderscores_def normalizeName_def safeNameOf_def

subsection \<open>Matching in the public catalog\<close>





subsection \<open>URL names\<close>

lemma getMcpServerConfig_default [simp]: "getMcpServerConfig parseUrl u = defaultServerConfig"
  by (simp add: getMcpServerConfig_def MCP_SERVER_CONFIG_def split: option.splits)

text \<open>
  Claim C6. For every requested tool name that the URL parser accepts as an absolute URL
  with protocol http or https (whether or not it is a key of the static registry), the
  resolution chain returns the synthesized descriptor whose \<^verbatim>\<open>server_url\<close> is the
  name itself, whose label is \<^verbatim>\<open>Custom MCP Server (<hostname>)\<close>, whose headers are
  empty and whose approval is \<^verbatim>\<open>never\<close>, and it makes no fetch of the public
  catalog for that name.
\<close>

theorem url_name_resolves_to_custom_server:
  assumes "w_parseUrl w toolName = Some u"
    and "protocol u = ''http:'' \<or> protocol u = ''https:''"
  shows "resolveTool w i toolName =
           (JObj [(''type'', JStr ''mcp''),
                  (''server_label'', JStr (''Custom MCP Server ('' @ hostname u @ '')'')),
                  (''server_url'', JStr toolName),
                  (''headers'', JObj []),
                  (''require_approval'', JStr ''never''),
                  (''_meta'', JObj
                     [(''description'', JStr (''Custom MCP server at '' @ hostname u)),
                      (''source'', JStr ''dynamic_url''),
                      (''config'', JObj defaultServerConfig)])],
            [])"
  using assms
  by (simp add: resolveTool_def isUrlTool_def createConfigFromUrl_def defaultServerConfig_def
        getOwn_def Let_def)

theorem url_name_resolves_to_custom_server_witness:
  "w_parseUrl exampleWorld ''https://example.com/mcp''
      = Some \<lparr>protocol = ''https:'', hostname = ''example.com''\<rparr>
   \<and> (protocol \<lparr>protocol = ''https:'', hostname = ''example.com''\<rparr> = ''http:''
        \<or> protocol \<lparr>protocol = ''https:'', hostname = ''example.com''\<rparr> = ''https:'')
   \<and> getProp (fst (resolveTool exampleWorld 0 ''https://example.com/mcp'')) ''server_label''
        = JStr ''Custom MCP Server (example.com)''
   \<and> getProp (fst (resolveTool exampleWorld 0 ''https://example.com/mcp'')) ''server_url''
        = JStr ''https://example.com/mcp''
   \<and> getProp (fst (resolveTool exampleWorld 0 ''https://example.com/mcp'')) ''headers'' = JObj []
   \<and> snd (resolveTool exampleWorld 0 ''https://example.com/mcp'') = []"
  using url_name_resolves_to_custom_server [of exampleWorld "''https://example.com/mcp''"
      "\<lparr>protocol = ''https:'', hostname = ''example.com''\<rparr>" 0]
  by (simp add: exampleWorld_def exampleParseUrl_def getOwn_def)

subsection \<open>All-or-nothing resolution of a batch\<close>

lemma gatewayCalls_append [simp]: "gatewayCalls (xs @ ys) = gatewayCalls xs @ gatewayCalls ys"
  by (induction xs rule: gatewayCalls.induct) auto

lemma resolveTool_no_gateway [simp]: "gatewayCalls (snd (resolveTool w i n)) = []"
  by (simp add: resolveTool_def Let_def)

lemma resolveTools_no_gateway [simp]: "gatewayCalls (snd (resolveTools w uth i names)) = []"
proof (induction names arbitrary: i)
  case Nil
  show ?case by simp
next
  case (Cons n names)
  obtain cfg evs where rt: "resolveTool w i n = (cfg, evs)" by (cases "resolveTool w i n")
  have evs: "gatewayCalls evs = []" using resolveTool_no_gateway [of w i n] rt by simp
  obtain r evs' where rec: "resolveTools w uth (Suc i) names = (r, evs')"
    by (cases "resolveTools w uth (Suc i) names")
  have evs': "gatewayCalls evs' = []" using Cons.IH [of "Suc i"] rec by simp
  show ?case by (cases r) (simp_all add: rt rec evs evs' Let_def)
qed

lemma resolveTools_first_unresolved:
  assumes "k < length names"
    and "\<not> truthy (fst (resolveTool w (i + k) (names ! k)))"
    and "\<forall>j < k. truthy (fst (resolveTool w (i + j) (names ! j)))"
  shows "fst (resolveTools w uth i names) = Inl (notFound w (names ! k))"
  using assms
proof (induction names arbitrary: i k)
  case Nil
  then show ?case by simp
next
  case (Cons n names)
  obtain cfg evs where rt: "resolveTool w i n = (cfg, evs)" by (cases "resolveTool w i n")
  show ?case
  proof (cases k)
    case 0
    with Cons.prems rt show ?thesis by simp
  next
    case (Suc k')
    from Cons.prems(3) Suc have t0: "truthy cfg" using rt by force
    have "fst (resolveTools w uth (Suc i) names) = Inl (notFound w (names ! k'))"
    proof (rule Cons.IH)
      show "k' < length names" using Cons.prems(1) Suc by simp
      show "\<not> truthy (fst (resolveTool w (Suc i + k') (names ! k')))"
        using Cons.prems(2) Suc by simp
      show "\<forall>j < k'. truthy (fst (resolveTool w (Suc i + j) (names ! j)))"
      proof (intro allI impI)
        fix j assume "j < k'"
        then have "Suc j < k" using Suc by simp
        with Cons.prems(3) have "truthy (fst (resolveTool w (i + Suc j) ((n # names) ! Suc j)))"
          by blast
        then show "truthy (fst (resolveTool w (Suc i + j) (names ! j)))" by simp
      qed
    qed
    then show ?thesis
      using t0 rt Suc by (cases "resolveTools w uth (Suc i) names") (auto simp: Let_def split: sum.splits)
  qed
qed

text \<open>
  The loop is all-or-nothing on the configurations it is given: in a request that has a
  query, if the configuration of some name is still falsy after the public-registry step,
  the result is the not-found error (status 404) naming the first such name, and no call of
  the Upstream Gateway is made. Position \<open>k\<close> is the first such name.
\<close>

lemma falsy_configuration_aborts_batch:
  assumes "toolsParam \<noteq> []" and "query \<noteq> []"
    and "toolNames = map trim (splitOn CHR '','' toolsParam)"
    and "k < length toolNames"
    and "\<not> truthy (fst (resolveTool w k (toolNames ! k)))"
    and "\<forall>j < k. truthy (fst (resolveTool w j (toolNames ! j)))"
  shows "fst (handleToolExecution w toolsParam query model apiKey userToolHeaders)
           = notFound w (toolNames ! k)
       \<and> gatewayCalls (snd (handleToolExecution w toolsParam query model apiKey userToolHeaders)) = []"
proof -
  have "fst (resolveTools w userToolHeaders 0 toolNames) = Inl (notFound w (toolNames ! k))"
    using assms(4-6) by (intro resolveTools_first_unresolved) simp_all
  then obtain evs where rs: "resolveTools w userToolHeaders 0 toolNames = (Inl (notFound w (toolNames ! k)), evs)"
    by (cases "resolveTools w userToolHeaders 0 toolNames") simp
  have "gatewayCalls evs = []" using resolveTools_no_gateway [of w userToolHeaders 0 toolNames] rs by simp
  then show ?thesis
    using assms(1-3) rs by (simp add: handleToolExecution_def Let_def)
qed


lemma falsy_configuration_aborts_batch_example:
  "''parallel_web_search, nosuchtool'' \<noteq> [] \<and> ''weather in Paris'' \<noteq> []
   \<and> map trim (splitOn CHR '','' ''parallel_web_search, nosuchtool'')
        = [''parallel_web_search'', ''nosuchtool'']
   \<and> (1::nat) < length [''parallel_web_search'', ''nosuchtool'']
   \<and> \<not> truthy (fst (resolveTool exampleWorld 1 ''nosuchtool''))
   \<and> truthy (fst (resolveTool exampleWorld 0 ''parallel_web_search''))
   \<and> fst (handleToolExecution exampleWorld ''parallel_web_search, nosuchtool'' ''weather in Paris''
          ''openai/gpt-oss-120b'' ''gsk'' []) = notFound exampleWorld ''nosuchtool''
   \<and> gatewayCalls (snd (handleToolExecution exampleWorld ''parallel_web_search, nosuchtool''
          ''weather in Paris'' ''openai/gpt-oss-120b'' ''gsk'' [])) = []"
proof -
  have names: "map trim (splitOn CHR '','' ''parallel_web_search, nosuchtool'')
        = [''parallel_web_search'', ''nosuchtool'']"
    by (simp add: trim_def isSpace_def)
  have first: "truthy (fst (resolveTool exampleWorld 0 ''parallel_web_search''))"
    by (simp add: resolveTool_def exampleWorld_def toolsRegistry_def isUrlTool_def
          exampleParseUrl_def getOwn_def readKey_def parallel_web_search_def Let_def)
  have second: "\<not> truthy (fst (resolveTool exampleWorld 1 ''nosuchtool''))"
    by (simp add: resolveTool_def exampleWorld_def toolsRegistry_def isUrlTool_def
          exampleParseUrl_def getOwn_def readKey_def inherited_def inheritedNames_def
          findServerForTool_def lookupFromMcpRegistry_def
          findServer_def fuzzyMatch_def localOnlyServer_def remoteServer_def str_eval Let_def)
  have prior: "\<forall>j < (1::nat). truthy (fst (resolveTool exampleWorld j
                  ([''parallel_web_search'', ''nosuchtool''] ! j)))"
    using first by simp
  show ?thesis
    using falsy_configuration_aborts_batch [where w = exampleWorld
        and toolsParam = "''parallel_web_search, nosuchtool''" and query = "''weather in Paris''"
        and toolNames = "[''parallel_web_search'', ''nosuchtool'']" and k = 1
        and model = "''openai/gpt-oss-120b''" and apiKey = "''gsk''" and userToolHeaders = "[]",
        OF _ _ names [symmetric] _ _ prior]
      names first second
    by simp
qed

text \<open>
  Claim C8 says that a batch with a name that fails to resolve through the whole chain
  gets the not-found error and no gateway call. A name whose only match in the public
  catalog is an entry for local installation has no descriptor: the lookup as specified
  finds nothing, and \<^verbatim>\<open>lookupFromMcpRegistry\<close> means to return \<^verbatim>\<open>null\<close> for it.
  But its test \<^verbatim>\<open>configMap[configKey].note\<close> reads the property \<^verbatim>\<open>note\<close> of the
  note string, which is undefined, so the note string itself is returned; it is truthy,
  the name passes for resolved, and the gateway is called with the spread of that string
  as the tool.
\<close>

theorem local_only_name_is_executed:
  "specifiedFindServer [localOnlyServer] ''acme/search'' = None
   \<and> resolveTool localOnlyWorld 0 ''acme/search'' = (JStr noteText, [RegistryFetch ''acme/search''])
   \<and> handleToolExecution localOnlyWorld ''acme/search'' ''weather in Paris''
         ''openai/gpt-oss-120b'' ''gsk'' []
       = (Success (JStr ''ok''),
          [RegistryFetch ''acme/search'',
           GatewayCall \<lparr>gc_apiKey = ''gsk'', gc_model = ''openai/gpt-oss-120b'',
                         gc_input = ''weather in Paris'',
                         gc_tools = [resolveToolConfig (JStr noteText) [] (w_env localOnlyWorld)]\<rparr>])"
proof -
  have spec: "specifiedFindServer [localOnlyServer] ''acme/search'' = None"
    by (simp add: specifiedFindServer_def advertisesRemote_def localOnlyServer_def)
  have names: "map trim (splitOn CHR '','' ''acme/search'') = [''acme/search'']"
    by (simp add: trim_def isSpace_def)
  have look: "lookupFromMcpRegistry (Catalog [localOnlyServer]) ''acme/search'' = JStr noteText"
    by (simp add: lookupFromMcpRegistry_def findServer_def localOnlyServer_def
          generateConfigFromServer_def remoteUrlAndHeaders_def getOwn_def safeNameOf_def)
  have chain: "resolveTool localOnlyWorld 0 ''acme/search''
                 = (JStr noteText, [RegistryFetch ''acme/search''])"
    by (simp add: resolveTool_def localOnlyWorld_def toolsRegistry_def readKey_def inherited_def
          inheritedNames_def isUrlTool_def exampleParseUrl_def findServerForTool_def look Let_def)
  have truthy_note: "noteText \<noteq> []" by (simp add: noteText_def)
  have hdrs: "headersForTool [] ''acme/search'' = []"
    by (simp add: headersForTool_def possibleKeys_def)
  have tools: "resolveTools localOnlyWorld [] 0 [''acme/search'']
                 = (Inr [resolveToolConfig (JStr noteText) [] (w_env localOnlyWorld)],
                    [RegistryFetch ''acme/search''])"
    by (simp add: chain truthy_note hdrs)
  have q: "modifiedQuery localOnlyWorld [''acme/search''] ts ''weather in Paris'' = ''weather in Paris''"
    for ts
    by (simp add: modifiedQuery_def toLowerCase_def toLowerChar_def upperChars_def lowerChars_def)
  have gw: "w_gateway localOnlyWorld 0 c = Inr (JStr ''ok'')" for c
    by (simp add: localOnlyWorld_def)
  have run: "handleToolExecution localOnlyWorld ''acme/search'' ''weather in Paris''
         ''openai/gpt-oss-120b'' ''gsk'' []
       = (Success (JStr ''ok''),
          [RegistryFetch ''acme/search'',
           GatewayCall \<lparr>gc_apiKey = ''gsk'', gc_model = ''openai/gpt-oss-120b'',
                         gc_input = ''weather in Paris'',
                         gc_tools = [resolveToolConfig (JStr noteText) [] (w_env localOnlyWorld)]\<rparr>])"
    by (simp add: handleToolExecution_def names tools executeTools_def q gw Let_def
          del: resolveTools.simps splitOn.simps)
  from spec chain run show ?thesis by simp
qed

subsection \<open>Number of gateway calls\<close>

lemma executeTools_calls:
  "gatewayCalls (snd (executeTools w apiKey model toolNames query tools)) =
     (let call0 = \<lparr>gc_apiKey = apiKey, gc_model = model,
                    gc_input = modifiedQuery w toolNames tools query, gc_tools = tools\<rparr>
      in if length toolNames = 1
            \<and> (case w_gateway w 0 call0 of
                   Inl message \<Rightarrow> includesStr message ''did not match schema''
                 | Inr result \<Rightarrow> False)
         then [call0, \<lparr>gc_apiKey = apiKey, gc_model = model,
                       gc_input = ''Use the '' @ hd toolNames @ '' tool'', gc_tools = tools\<rparr>]
         else [call0])"
  by (auto simp: executeTools_def Let_def split: sum.splits list.splits)

text \<open>
  Claim C3. For every execution request the Execution Orchestrator makes at most two calls
  of the Upstream Gateway, and at most one when the batch does not name exactly one tool.
  Whenever the first call is made (the request has its parameters and every name
  resolves), whatever its outcome: the calls are exactly the first call, followed by one
  retry if and only if the batch names exactly one tool and the first call failed with a
  message containing \<^verbatim>\<open>did not match schema\<close>. So a multi-tool batch makes exactly
  one call, a single-tool batch one or two, and there is never a second retry. The retry
  carries the same tools and the query \<^verbatim>\<open>Use the <name> tool\<close>.
\<close>

theorem gateway_calls_bounded:
  fixes w toolsParam query model apiKey userToolHeaders
  defines "toolNames \<equiv> map trim (splitOn CHR '','' toolsParam)"
  defines "calls \<equiv> gatewayCalls (snd (handleToolExecution w toolsParam query model apiKey userToolHeaders))"
  shows "length calls \<le> 2
       \<and> (length toolNames \<noteq> 1 \<longrightarrow> length calls \<le> 1)
       \<and> (\<forall>tools. toolsParam \<noteq> [] \<and> query \<noteq> []
             \<and> fst (resolveTools w userToolHeaders 0 toolNames) = Inr tools \<longrightarrow>
            (let call0 = \<lparr>gc_apiKey = apiKey, gc_model = model,
                           gc_input = modifiedQuery w toolNames tools query, gc_tools = tools\<rparr>
             in calls =
                  (if length toolNames = 1
                      \<and> (case w_gateway w 0 call0 of
                             Inl message \<Rightarrow> includesStr message ''did not match schema''
                           | Inr result \<Rightarrow> False)
                   then [call0, \<lparr>gc_apiKey = apiKey, gc_model = model,
                                 gc_input = ''Use the '' @ hd toolNames @ '' tool'',
                                 gc_tools = tools\<rparr>]
                   else [call0])))"
proof -
  obtain r evs where rs: "resolveTools w userToolHeaders 0 toolNames = (r, evs)"
    by (cases "resolveTools w userToolHeaders 0 toolNames")
  have evs: "gatewayCalls evs = []"
    using resolveTools_no_gateway [of w userToolHeaders 0 toolNames] rs by simp
  show ?thesis
  proof (cases "toolsParam = [] \<or> query = []")
    case True
    then have "calls = []" by (auto simp: calls_def handleToolExecution_def)
    with True show ?thesis by auto
  next
    case False
    show ?thesis
    proof (cases r)
      case (Inl failure)
      then have "calls = []"
        using False rs evs
        by (simp add: calls_def handleToolExecution_def Let_def toolNames_def [symmetric])
      with Inl rs show ?thesis by simp
    next
      case (Inr tools)
      have "calls = gatewayCalls (snd (executeTools w apiKey model toolNames query tools))"
        using False rs evs Inr
        by (simp add: calls_def handleToolExecution_def Let_def toolNames_def [symmetric]
              split: prod.splits)
      then show ?thesis
        using Inr rs by (simp add: executeTools_calls Let_def)
    qed
  qed
qed

theorem gateway_calls_bounded_witness:
  "''parallel_web_search'' \<noteq> [] \<and> ''weather in Paris'' \<noteq> []
   \<and> fst (resolveTools exampleWorld [] 0 (map trim (splitOn CHR '','' ''parallel_web_search'')))
       = Inr [resolveToolConfig parallel_web_search [] (w_env exampleWorld)]
   \<and> map gc_input (gatewayCalls (snd (handleToolExecution exampleWorld ''parallel_web_search''
          ''weather in Paris'' ''openai/gpt-oss-120b'' ''gsk'' [])))
       = [''weather in Paris'', ''Use the parallel_web_search tool'']"
proof -
  let ?tool = "resolveToolConfig parallel_web_search [] (w_env exampleWorld)"
  have names: "map trim (splitOn CHR '','' ''parallel_web_search'') = [''parallel_web_search'']"
    by (simp add: trim_def isSpace_def)
  have "resolveTool exampleWorld 0 ''parallel_web_search'' = (parallel_web_search, [])"
    by (simp add: resolveTool_def exampleWorld_def toolsRegistry_def isUrlTool_def
          exampleParseUrl_def getOwn_def readKey_def parallel_web_search_def Let_def)
  moreover have "truthy parallel_web_search" by (simp add: parallel_web_search_def)
  moreover have "headersForTool [] ''parallel_web_search'' = []"
    by (simp add: headersForTool_def possibleKeys_def)
  ultimately have tools: "resolveTools exampleWorld [] 0 [''parallel_web_search''] = (Inr [?tool], [])"
    by simp
  have q: "modifiedQuery exampleWorld [''parallel_web_search''] [?tool] ''weather in Paris''
             = ''weather in Paris''"
    by (simp add: modifiedQuery_def toLowerCase_def toLowerChar_def upperChars_def lowerChars_def)
  have gw: "w_gateway exampleWorld 0 c = Inl ''400: tool call did not match schema''" for c
    by (simp add: exampleWorld_def)
  have sig: "includesStr ''400: tool call did not match schema'' ''did not match schema''"
    by simp
  show ?thesis
    using gateway_calls_bounded [where w = exampleWorld and toolsParam = "''parallel_web_search''"
      and query = "''weather in Paris''" and model = "''openai/gpt-oss-120b''"
      and apiKey = "''gsk''" and userToolHeaders = "[]"]
    by (simp add: names tools q gw sig Let_def del: resolveTools.simps splitOn.simps)
qed

subsection \<open>Router fallback\<close>

lemma optMember_readMember: "readMember v k = Inr x \<Longrightarrow> optMember v k = x"
  by (auto simp: readMember_def optMember_def split: if_splits)





subsection \<open>Redaction in generated commands\<close>































text \<open>
  \<^verbatim>\<open>generateCurlCommand\<close> returns no command: \<^verbatim>\<open>handlers.js\<close> does not export
  \<^verbatim>\<open>extractDiscoveredServers\<close>, so every call throws at line 149.
\<close>

lemma generateCurlCommand_throws: "generateCurlCommand w selectedTools model = Inl TypeError"
  by (simp add: generateCurlCommand_def handlersExports_def)









subsection \<open>Size of the selection\<close>

lemma fourToolsText_eval:
  "extractJson fourToolsReplyText = Some fourToolsText"
  by code_simp

lemma fourToolsReplyText_nonempty: "fourToolsReplyText \<noteq> []"
  by (simp add: fourToolsReplyText_def)

text \<open>
  Claim C7 says that the selection passed on to execution or curl generation has at most
  3 selected tools whatever the model replies. Nothing in the code cuts the list: a reply
  that lists four tools is passed on with its four tools, in either mode, and
  \<^verbatim>\<open>executeSelectedTools\<close> takes four names from it.
\<close>

theorem more_than_three_tools_counterexample:
  "handOffSelection parseFourTools ''execute'' fourToolsReply = ToExecution fourTools
   \<and> handOffSelection parseFourTools ''curl'' fourToolsReply = ToCurlGeneration fourTools
   \<and> selectedToolNames fourTools
        = Inr [JStr ''parallel_web_search'', JStr ''github'', JStr ''huggingface'', JStr ''acme/search'']
   \<and> \<not> length [JStr ''parallel_web_search'', JStr ''github'', JStr ''huggingface'',
                  JStr ''acme/search''] \<le> 3"
proof -
  have p: "parseSelection parseFourTools fourToolsReply = Inr fourTools"
    by (simp add: parseSelection_def fourToolsReply_def readMember_def optMember_def getOwn_def
          fourToolsText_eval fourToolsReplyText_nonempty parseFourTools_def Let_def)
  have n: "selectedToolNames fourTools
        = Inr [JStr ''parallel_web_search'', JStr ''github'', JStr ''huggingface'', JStr ''acme/search'']"
    by (simp add: selectedToolNames_def fourTools_def readMember_def getOwn_def)
  from p n show ?thesis by (simp add: handOffSelection_def)
qed

text \<open>
  Claim C7, amended. For every selection-engine run in which the reply of the model holds
  a JSON object that parses, the selection passed on to execution or curl generation is
  exactly the parsed object: it contains as many selected tools as the reply lists, and
  \<^verbatim>\<open>executeSelectedTools\<close> takes one name from each of them. The limit of three
  is asked of the model in the prompt and is not enforced on its reply.
\<close>

theorem selection_is_passed_on_unchanged:
  assumes "\<not> nullish selectionData"
    and "routedContent selectionData = JStr responseText"
    and "extractJson responseText = Some jsonText"
    and "JSON_parse (JStr jsonText) = Some selectedTools"
    and "getProp selectedTools ''selected_tools'' = JArr ts"
    and "\<not> list_ex nullish ts"
  shows "handOffSelection JSON_parse mode selectionData
           = (if mode = ''curl'' then ToCurlGeneration selectedTools else ToExecution selectedTools)
       \<and> selectedToolNames selectedTools = Inr (map (\<lambda>t. getProp t ''name'') ts)
       \<and> length (map (\<lambda>t. getProp t ''name'') ts) = length ts"
proof -
  have ne: "responseText \<noteq> []" using assms(3) by (auto simp: extractJson_def)
  have ch: "readMember selectionData ''choices'' = Inr (optMember selectionData ''choices'')"
    using assms(1) by (simp add: readMember_def optMember_def)
  have "parseSelection JSON_parse selectionData = Inr selectedTools"
    using assms(2-4) ne ch by (simp add: parseSelection_def routedContent_def Let_def)
  moreover have "\<not> nullish selectedTools" using assms(5) by (cases selectedTools) auto
  ultimately show ?thesis
    using assms(5,6) by (simp add: handOffSelection_def selectedToolNames_def readMember_def)
qed

theorem selection_is_passed_on_unchanged_witness:
  "\<not> nullish fourToolsReply
   \<and> routedContent fourToolsReply = JStr fourToolsReplyText
   \<and> extractJson fourToolsReplyText = Some fourToolsText
   \<and> parseFourTools (JStr fourToolsText) = Some fourTools
   \<and> handOffSelection parseFourTools ''execute'' fourToolsReply = ToExecution fourTools
   \<and> (case selectedToolNames fourTools of Inr names \<Rightarrow> length names | Inl e \<Rightarrow> 0) = 4"
proof -
  let ?ts = "[JObj [(''name'', JStr ''parallel_web_search''), (''reason'', JStr ''search''),
                (''registry'', JStr ''local'')],
          JObj [(''name'', JStr ''github''), (''reason'', JStr ''issues''),
                (''registry'', JStr ''local'')],
          JObj [(''name'', JStr ''huggingface''), (''reason'', JStr ''models''),
                (''registry'', JStr ''local'')],
          JObj [(''name'', JStr ''acme/search''), (''reason'', JStr ''more results''),
                (''registry'', JStr ''public'')]]"
  have a: "\<not> nullish fourToolsReply" by (simp add: fourToolsReply_def)
  have b: "routedContent fourToolsReply = JStr fourToolsReplyText"
    by (simp add: routedContent_def fourToolsReply_def optMember_def getOwn_def)
  have c: "parseFourTools (JStr fourToolsText) = Some fourTools" by (simp add: parseFourTools_def)
  have d: "getProp fourTools ''selected_tools'' = JArr ?ts" by (simp add: fourTools_def getOwn_def)
  have e: "\<not> list_ex nullish ?ts" by simp
  show ?thesis
    using selection_is_passed_on_unchanged [where JSON_parse = parseFourTools
        and selectionData = fourToolsReply and responseText = fourToolsReplyText
        and jsonText = fourToolsText and selectedTools = fourTools and ts = ?ts
        and mode = "''execute''", OF a b fourToolsText_eval c d e]
      a b c fourToolsText_eval
    by simp
qed

subsection \<open>The resolver does not touch its inputs\<close>

lemma fold_resolveHeaderStep:
  assumes "uh < length h"
  shows "fold (resolveHeaderStep uh env (Suc (length h))) es (h @ [r, acc]) =
           h @ [r, fold (\<lambda>(key, val) acc. AList.update key (resolveHeaderH (h ! uh) env key val) acc)
                        es acc]"
  using assms
proof (induction es arbitrary: acc)
  case Nil
  show ?case by simp
next
  case (Cons e es)
  obtain key val where e: "e = (key, val)" by (cases e)
  have "resolveHeaderStep uh env (Suc (length h)) e (h @ [r, acc]) =
          h @ [r, AList.update key (resolveHeaderH (h ! uh) env key val) acc]"
    using Cons.prems
    by (simp add: e resolveHeaderStep_def assign_def nth_append list_update_append)
  then show ?case using Cons by (simp add: e)
qed

lemma getH_delete_other: "k \<noteq> k' \<Longrightarrow> getH (AList.delete k' fs) k = getH fs k"
  by (simp add: getH_def delete_conv')

lemma getH_update_same: "getH (AList.update k v fs) k = v"
  by (simp add: getH_def update_conv')

lemma propsAt_append: "validRef h v \<Longrightarrow> propsAt (h @ hs) v = propsAt h v"
  by (cases v) (simp_all add: propsAt_def nth_append)

lemma falsy_propsAt: "\<not> truthyH v \<Longrightarrow> propsAt h v = []"
  by (cases v) (auto simp: propsAt_def elim: truthy.elims)

lemma spreadH_Ref:
  "a < length h \<Longrightarrow> spreadH h acc (Ref a) = fold (\<lambda>(k, x) ob. AList.update k x ob) (h ! a) acc"
  by (simp add: spreadH_def propsAt_def)

lemma spreadH_falsy: "\<not> truthyH v \<Longrightarrow> spreadH h acc v = acc"
  by (simp add: spreadH_def falsy_propsAt)

lemma resolveToolConfigH_result:
  assumes "uh < length h" and "validRef h (getH (spreadH h [] tc) ''headers'')"
  shows "resolveToolConfigH h tc uh env = (h @ resolvedObjects h tc uh env, length h)"
proof -
  let ?r2 = "AList.delete ''_registry'' (AList.delete ''_meta'' (spreadH h [] tc))"
  let ?hv = "getH ?r2 ''headers''"
  have hv: "?hv = getH (spreadH h [] tc) ''headers''"
    by (simp add: getH_delete_other)
  then have valid: "validRef h ?hv" using assms(2) by simp
  show ?thesis
  proof (cases "truthyH ?hv")
    case True
    have p: "propsAt (h @ [?r2, []]) ?hv = propsAt h ?hv"
      using valid by (rule propsAt_append)
    show ?thesis
      using True assms(1)
      by (simp add: resolveToolConfigH_def resolvedObjects_def alloc_def deleteProp_def assign_def
            Let_def nth_append list_update_append p fold_resolveHeaderStep getH_update_same
            spreadH_Ref)
  next
    case False
    show ?thesis
      using False assms(1)
      by (simp add: resolveToolConfigH_def resolvedObjects_def alloc_def deleteProp_def assign_def
            Let_def nth_append list_update_append getH_update_same spreadH_Ref spreadH_falsy)
  qed
qed

lemma spreadH_append: "validRef h v \<Longrightarrow> spreadH (h @ hs) acc v = spreadH h acc v"
  by (simp add: spreadH_def propsAt_append)

lemma delete_update_same: "AList.delete k (AList.update k v al) = AList.delete k al"
  by (induction al) auto

lemma resolvedView_result:
  assumes "uh < length h" and "validRef h (getH (spreadH h [] tc) ''headers'')"
  shows "resolvedView (resolveToolConfigH h tc uh env) =
           viewOf (spreadH h [] tc) (propsAt h (getH (spreadH h [] tc) ''headers'')) (h ! uh) env"
  using assms
  by (simp add: resolveToolConfigH_result resolvedView_def resolvedObjects_def viewOf_def Let_def
        nth_append getH_update_same getH_delete_other delete_update_same propsAt_def)

text \<open>
  Claim C9. The Credential Resolver is pure and idempotent. On a store in which the
  descriptor, its header object and the two callers' header objects exist: a resolution
  leaves every object that existed before it unchanged (the registry's descriptor with its
  header thunks and its metadata, and the caller's headers), since it writes to the objects
  it allocates only; a second resolution of the same descriptor, with other caller
  headers, made after the first gives exactly the resolved tool that it gives without the
  first, so nothing of the first call's override leaks into it; and a second resolution
  with the same inputs gives the same resolved tool and headers as the first.
\<close>

theorem resolver_leaves_inputs_unchanged:
  assumes "userHeaders1 < length h" and "userHeaders2 < length h"
    and "validRef h toolConfig"
    and "validRef h (getH (spreadH h [] toolConfig) ''headers'')"
  shows "(\<forall>a < length h. fst (resolveToolConfigH h toolConfig userHeaders1 env) ! a = h ! a)
       \<and> resolvedView (resolveToolConfigH (fst (resolveToolConfigH h toolConfig userHeaders1 env))
                          toolConfig userHeaders2 env)
           = resolvedView (resolveToolConfigH h toolConfig userHeaders2 env)
       \<and> resolvedView (resolveToolConfigH (fst (resolveToolConfigH h toolConfig userHeaders1 env))
                          toolConfig userHeaders1 env)
           = resolvedView (resolveToolConfigH h toolConfig userHeaders1 env)"
proof -
  let ?h1 = "fst (resolveToolConfigH h toolConfig userHeaders1 env)"
  have h1: "?h1 = h @ resolvedObjects h toolConfig userHeaders1 env"
    using assms(1,4) by (simp add: resolveToolConfigH_result)
  have frame: "\<forall>a < length h. ?h1 ! a = h ! a"
    by (simp add: h1 nth_append)
  have sp: "spreadH ?h1 [] toolConfig = spreadH h [] toolConfig"
    using assms(3) by (simp add: h1 spreadH_append)
  have pr: "propsAt ?h1 (getH (spreadH h [] toolConfig) ''headers'')
              = propsAt h (getH (spreadH h [] toolConfig) ''headers'')"
    using assms(4) by (simp add: h1 propsAt_append)
  have valid1: "validRef ?h1 (getH (spreadH ?h1 [] toolConfig) ''headers'')"
    using assms(3,4)
    by (cases "getH (spreadH h [] toolConfig) ''headers''") (simp_all add: h1 spreadH_append)
  have again: "resolvedView (resolveToolConfigH ?h1 toolConfig uh env)
                 = resolvedView (resolveToolConfigH h toolConfig uh env)"
    if "uh < length h" for uh
  proof -
    from that have lt: "uh < length ?h1" by (simp add: h1)
    have same: "?h1 ! uh = h ! uh" using that frame by simp
    show ?thesis
      using resolvedView_result [OF lt valid1, of env]
        resolvedView_result [OF that assms(4), of env]
      by (simp add: sp pr same)
  qed
  from frame again [OF assms(2)] again [OF assms(1)] show ?thesis by simp
qed

text \<open>
  On flat objects (property values that are plain values) the store resolver computes the
  headers of \<^const>\<open>resolveToolConfig\<close>.
\<close>

lemma update_inStore: "AList.update k (Val v) (inStore acc) = inStore (AList.update k v acc)"
  by (induction acc) (auto simp: inStore_def)

lemma fold_update_inStore:
  "fold (\<lambda>(k, x) ob. AList.update k x ob) (inStore xs) (inStore acc)
     = inStore (fold (\<lambda>(k, x) ob. AList.update k x ob) xs acc)"
proof (induction xs arbitrary: acc)
  case Nil
  show ?case by (simp add: inStore_def)
next
  case (Cons x xs)
  obtain k v where x: "x = (k, v)" by (cases x)
  have "inStore (x # xs) = (k, Val v) # inStore xs" by (simp add: inStore_def x)
  then show ?case using Cons.IH [of "AList.update k v acc"] by (simp add: update_inStore x)
qed

lemma readKeyH_inStore: "readKeyH (inStore us) key = Val (readKey us key)"
  by (induction us) (auto simp: readKeyH_def readKey_def inStore_def)

lemma resolveHeaderH_inStore:
  "resolveHeaderH (inStore us) env key (Val val) = Val (resolveHeader us env key val)"
  by (cases val) (simp_all add: resolveHeaderH_def resolveHeader_def readKeyH_inStore)

lemma fold_resolveHeaderH_inStore:
  "fold (\<lambda>(key, val) acc. AList.update key (resolveHeaderH (inStore us) env key val) acc)
        (inStore hs) (inStore acc)
     = inStore (fold (\<lambda>(key, val) resolvedHeaders.
                        AList.update key (resolveHeader us env key val) resolvedHeaders) hs acc)"
proof (induction hs arbitrary: acc)
  case Nil
  show ?case by (simp add: inStore_def)
next
  case (Cons x hs)
  obtain k v where x: "x = (k, v)" by (cases x)
  have "inStore (x # hs) = (k, Val v) # inStore hs" by (simp add: inStore_def x)
  then show ?case
    using Cons.IH [of "AList.update k (resolveHeader us env k v) acc"]
    by (simp add: update_inStore resolveHeaderH_inStore x)
qed

lemma store_resolver_agrees:
  assumes "uh < length h" and "h ! uh = inStore us"
    and "getH (spreadH h [] tc) ''headers'' = Ref b" and "b < length h" and "h ! b = inStore hs"
  shows "snd (resolvedView (resolveToolConfigH h tc uh env))
           = inStore (headersOf (resolveToolConfig (JObj [(''headers'', JObj hs)]) us env))"
proof -
  have empty: "inStore [] = []" by (simp add: inStore_def)
  have valid: "validRef h (getH (spreadH h [] tc) ''headers'')" using assms(3,4) by simp
  have "snd (resolvedView (resolveToolConfigH h tc uh env))
          = fold (\<lambda>(k, x) ob. AList.update k x ob) (inStore us)
             (fold (\<lambda>(k, x) ob. AList.update k x ob)
                (fold (\<lambda>(key, val) acc.
                         AList.update key (resolveHeaderH (inStore us) env key val) acc)
                      (inStore hs) (inStore []))
                (inStore []))"
    using assms by (simp add: resolvedView_result [OF assms(1) valid] viewOf_def propsAt_def empty)
  also have "\<dots> = inStore (spread (spread [] (JObj (resolveHeaders us env hs))) (JObj us))"
    by (simp add: fold_resolveHeaderH_inStore fold_update_inStore spread_def resolveHeaders_def)
  also have "spread (spread [] (JObj (resolveHeaders us env hs))) (JObj us)
               = headersOf (resolveToolConfig (JObj [(''headers'', JObj hs)]) us env)"
    by (simp add: headersOf_resolveToolConfig spread_def getOwn_def Let_def)
  finally show ?thesis .
qed

theorem resolver_leaves_inputs_unchanged_witness:
  "(3::nat) < length registryHeap \<and> (4::nat) < length registryHeap
   \<and> validRef registryHeap (Ref 0)
   \<and> validRef registryHeap (getH (spreadH registryHeap [] (Ref 0)) ''headers'')
   \<and> take 5 (fst (resolveToolConfigH registryHeap (Ref 0) 3 searchEnv)) = registryHeap
   \<and> snd (resolvedView (resolveToolConfigH registryHeap (Ref 0) 3 searchEnv))
        = [(''x-api-key'', Val (JStr ''key-of-first-caller''))]
   \<and> snd (resolvedView (resolveToolConfigH
              (fst (resolveToolConfigH registryHeap (Ref 0) 3 searchEnv)) (Ref 0) 4 searchEnv))
        = [(''x-api-key'', Val (JStr ''pk-live-0123456789''))]"
proof -
  have a: "(3::nat) < length registryHeap" and b: "(4::nat) < length registryHeap"
    by (simp_all add: registryHeap_def)
  have c: "validRef registryHeap (Ref 0)" by (simp add: registryHeap_def)
  have hv: "getH (spreadH registryHeap [] (Ref 0)) ''headers'' = Ref 1"
    by (simp add: registryHeap_def spreadH_def propsAt_def getH_def)
  have d: "validRef registryHeap (getH (spreadH registryHeap [] (Ref 0)) ''headers'')"
    by (simp add: hv) (simp add: registryHeap_def)
  have r: "resolveToolConfigH registryHeap (Ref 0) 3 searchEnv
             = (registryHeap @ resolvedObjects registryHeap (Ref 0) 3 searchEnv, 5)"
    using resolveToolConfigH_result [OF a d, of searchEnv] by (simp add: registryHeap_def)
  have t: "take 5 (fst (resolveToolConfigH registryHeap (Ref 0) 3 searchEnv)) = registryHeap"
    by (simp add: r) (simp add: registryHeap_def)
  have first: "snd (resolvedView (resolveToolConfigH registryHeap (Ref 0) 3 searchEnv))
        = [(''x-api-key'', Val (JStr ''key-of-first-caller''))]"
    by (simp add: resolvedView_result [OF a d] viewOf_def hv)
       (simp add: registryHeap_def propsAt_def resolveHeaderH_def readKeyH_def getH_def)
  have alone: "snd (resolvedView (resolveToolConfigH registryHeap (Ref 0) 4 searchEnv))
        = [(''x-api-key'', Val (JStr ''pk-live-0123456789''))]"
    by (simp add: resolvedView_result [OF b d] viewOf_def hv)
       (simp add: registryHeap_def propsAt_def resolveHeaderH_def readKeyH_def getH_def
         inherited_def inheritedNames_def searchEnv_def)
  show ?thesis
    using resolver_leaves_inputs_unchanged [OF a b c d, of searchEnv] a b c d t first alone
    by simp
qed

end
